(* ===== verification/Prelude.thy ===== *)
theory Prelude
  imports Complex_Main "HOL-Library.AList" "HOL-Library.Sublist"
begin

text \<open>
  The JavaScript values the page works with, and the few built-ins of the language it
  calls: strings as sequences of UTF-16 code units, the property bags handed to the
  analytics SDK as association lists with the key order and overwrite rule of an object
  literal, \<open>String.prototype.trim\<close> and \<open>includes\<close>, the truthiness of a string or
  \<open>null\<close>, the division and comparison of numbers (with the infinities and NaN that a
  zero divisor gives), \<open>Math.round\<close> of a percentage, and the decimal rendering of a
  number in a template literal. The shared lemmas about them are collected here.
\<close>

named_theorems js_simps "evaluation rules of the JavaScript built-ins of the model"
named_theorems page_simps "unfolding rules of the page's handlers"

section \<open>Strings\<close>

text \<open>
  A JavaScript string is a sequence of UTF-16 code units; \<open>js\<close> reads an ASCII literal as
  one. Non-ASCII text (the Korean labels of the page) is written by its code points, all
  in the Basic Multilingual Plane, so one code unit each.
\<close>

type_synonym jstr = "nat list"

definition js :: "string \<Rightarrow> jstr" where
  "js s = map of_char s"

text \<open>
  ECMAScript's WhiteSpace and LineTerminator code points, which \<open>trim\<close> removes:
  TAB, LF, VT, FF, CR, SPACE, NBSP, the Zs category (U+1680, U+2000 to U+200A, U+202F,
  U+205F, U+3000), LS, PS and the byte order mark.
\<close>

definition js_ws :: "nat \<Rightarrow> bool" where
  "js_ws c \<longleftrightarrow> (9 \<le> c \<and> c \<le> 13) \<or> c = 32 \<or> c = 160 \<or> c = 5760
     \<or> (8192 \<le> c \<and> c \<le> 8202) \<or> c = 8232 \<or> c = 8233 \<or> c = 8239 \<or> c = 8287
     \<or> c = 12288 \<or> c = 65279"

definition js_trim :: "jstr \<Rightarrow> jstr" where
  "js_trim s = rev (dropWhile js_ws (rev (dropWhile js_ws s)))"

text \<open>\<open>hay.includes(needle)\<close>: the needle occurs as a contiguous part of the string.\<close>

definition js_includes :: "jstr \<Rightarrow> jstr \<Rightarrow> bool" where
  "js_includes hay needle \<longleftrightarrow> sublist needle hay"

text \<open>
  \<open>s.substring(a, b)\<close> for \<open>0 \<le> a \<le> b\<close>: both ends are clamped to the length.
\<close>

definition js_substring :: "jstr \<Rightarrow> nat \<Rightarrow> nat \<Rightarrow> jstr" where
  "js_substring s a b = take (b - a) (drop a s)"

text \<open>
  Truthiness of a value of type \<open>string | null\<close>: \<open>null\<close> and the empty string are
  falsy. \<open>a || b\<close> on such a value is \<open>a\<close> when it is truthy and \<open>b\<close> otherwise.
\<close>

definition js_truthy :: "jstr option \<Rightarrow> bool" where
  "js_truthy v \<longleftrightarrow> (case v of None \<Rightarrow> False | Some s \<Rightarrow> s \<noteq> [])"

definition js_or :: "jstr option \<Rightarrow> jstr \<Rightarrow> jstr" where
  "js_or v d = (if js_truthy v then the v else d)"

section \<open>Values and property bags\<close>

datatype jsval = JStr jstr | JNum int | JBool bool | JUndef

type_synonym props = "(jstr \<times> jsval) list"

text \<open>
  \<open>{...p, k: v}\<close>: a key already present keeps its position and takes the new value, a
  new key goes last. This is \<open>AList.update\<close>. \<open>{...a, ...b}\<close> assigns the entries of
  \<open>b\<close> one after the other.
\<close>

definition js_set :: "jstr \<Rightarrow> jsval \<Rightarrow> props \<Rightarrow> props" where
  "js_set k v p = AList.update k v p"

definition js_spread :: "props \<Rightarrow> props \<Rightarrow> props" where
  "js_spread a b = foldl (\<lambda>m (k, v). js_set k v m) a b"

section \<open>Numbers\<close>

text \<open>
  Numbers of the page are integers of pixels and counts; a quotient is exact (a rational)
  unless the divisor is zero, where JavaScript gives an infinity or NaN.
\<close>

datatype jsnum = Fin rat | PosInf | NegInf | NaN

definition js_div :: "int \<Rightarrow> int \<Rightarrow> jsnum" where
  "js_div a b =
     (if b \<noteq> 0 then Fin (of_int a / of_int b)
      else if 0 < a then PosInf else if a < 0 then NegInf else NaN)"

fun js_mul :: "jsnum \<Rightarrow> rat \<Rightarrow> jsnum" where
  "js_mul (Fin x) k = Fin (x * k)"
| "js_mul PosInf k = (if 0 < k then PosInf else if k < 0 then NegInf else NaN)"
| "js_mul NegInf k = (if 0 < k then NegInf else if k < 0 then PosInf else NaN)"
| "js_mul NaN k = NaN"

fun js_ge :: "jsnum \<Rightarrow> rat \<Rightarrow> bool" where
  "js_ge (Fin x) r \<longleftrightarrow> r \<le> x"
| "js_ge PosInf r \<longleftrightarrow> True"
| "js_ge NegInf r \<longleftrightarrow> False"
| "js_ge NaN r \<longleftrightarrow> False"

text \<open>
  \<open>Math.round((k / n) * 100)\<close> for a count \<open>k\<close> of \<open>n > 0\<close>: \<open>Math.round\<close> rounds
  half up, \<open>\<lfloor>x + 1/2\<rfloor>\<close>, which is \<open>(200 k + n) div 2n\<close> on the exact quotient.
  The page only computes \<open>k / 5\<close> for \<open>k\<close> from 1 to 4, where the doubles give 20, 40,
  60.00000000000001 and 80 and \<open>Math.round\<close> returns \<open>20 k\<close> as the formula does. For
  other quotients the double may fall on the other side of a half (\<open>23 / 40 * 100\<close> is
  57.49999999999999), so the formula is a model of the page's calls only.
\<close>

definition js_round_percent :: "nat \<Rightarrow> nat \<Rightarrow> nat" where
  "js_round_percent k n = (200 * k + n) div (2 * n)"

text \<open>\<open>`${n}`\<close> for a non-negative integer: its decimal digits.\<close>

fun dec_string :: "nat \<Rightarrow> jstr" where
  "dec_string n = (if n < 10 then [48 + n] else dec_string (n div 10) @ [48 + n mod 10])"

declare dec_string.simps [simp del]

section \<open>Exceptions\<close>

text \<open>
  A call that may throw returns \<open>error + 'a\<close>; \<open>try { ... } catch { }\<close> around it keeps
  the state reached before the throw.
\<close>

datatype js_error = SecurityError | QuotaExceededError | SinkError

definition catch_to :: "'a \<Rightarrow> js_error + 'a \<Rightarrow> 'a" where
  "catch_to d r = (case r of Inl _ \<Rightarrow> d | Inr x \<Rightarrow> x)"

section \<open>Lemmas on the built-ins\<close>

lemma js_append [simp]: "js (a @ b) = js a @ js b"
  by (simp add: js_def)

lemma js_inj [simp]: "js a = js b \<longleftrightarrow> a = b"
  unfolding js_def by (simp add: inj_map_eq_map inj_of_char)

lemma js_ascii: "c \<in> set (js s) \<Longrightarrow> c < 256"
  by (auto simp: js_def)

lemma catch_to_simps [simp]: "catch_to d (Inl e) = d" "catch_to d (Inr x) = x"
  by (simp_all add: catch_to_def)

lemma js_set_lookup [simp]: "map_of (js_set k v p) = (map_of p)(k \<mapsto> v)"
  by (simp add: js_set_def update_conv')

lemma js_set_keys [simp]: "fst ` set (js_set k v p) = insert k (fst ` set p)"
  unfolding js_set_def by (induction p) auto

lemma js_set_distinct: "distinct (map fst p) \<Longrightarrow> distinct (map fst (js_set k v p))"
  by (simp add: js_set_def distinct_update)

lemma js_spread_lookup [simp]: "map_of (js_spread a b) = map_of a ++ map_of (rev b)"
  unfolding js_spread_def
  by (induction b arbitrary: a) (auto simp: map_add_def fun_eq_iff split: option.splits)

lemma js_spread_keys [simp]: "fst ` set (js_spread a b) = fst ` set a \<union> fst ` set b"
proof (induction b arbitrary: a)
  case Nil
  then show ?case by (simp add: js_spread_def)
next
  case (Cons x b)
  obtain k v where "x = (k, v)" by (cases x)
  with Cons.IH [of "js_set k v a"] show ?case by (auto simp: js_spread_def)
qed

lemma js_spread_distinct: "distinct (map fst a) \<Longrightarrow> distinct (map fst (js_spread a b))"
  unfolding js_spread_def by (induction b arbitrary: a) (auto simp: js_set_distinct)

text \<open>A string joined at a separator that occurs in neither left part splits back.\<close>

lemma split_at_sep:
  assumes "c \<notin> set a" and "c \<notin> set b" and "a @ c # v = b @ c # w"
  shows "a = b \<and> v = w"
  using assms
proof (induction a arbitrary: b)
  case Nil
  then show ?case by (cases b) auto
next
  case (Cons x a)
  then show ?case by (cases b) auto
qed

lemma js_includes_single [simp]: "js_includes s [c] \<longleftrightarrow> c \<in> set s"
  by (auto simp: js_includes_def sublist_def in_set_conv_decomp)

lemma js_truthy_simps [simp]:
  "js_truthy None = False" "js_truthy (Some s) \<longleftrightarrow> s \<noteq> []"
  by (simp_all add: js_truthy_def)

lemma js_or_simps [simp]:
  "js_or None d = d" "js_or (Some s) d = (if s = [] then d else s)"
  by (simp_all add: js_or_def)

lemma js_round_percent_fifths [simp]: "js_round_percent k 5 = 20 * k"
  by (simp add: js_round_percent_def)

lemma dec_string_nonempty: "dec_string n \<noteq> []"
  by (subst dec_string.simps) simp

lemma dec_string_digits: "set (dec_string n) \<subseteq> {48..57}"
proof (induction n rule: dec_string.induct)
  case (1 n)
  then show ?case
    by (subst dec_string.simps) auto
qed

subsection \<open>\<open>trim\<close>\<close>

lemma dropWhile_rev_all: "dropWhile P (rev s) = [] \<longleftrightarrow> (\<forall>c\<in>set s. P c)"
  by (simp add: dropWhile_eq_Nil_conv)

lemma js_trim_Nil_iff: "js_trim s = [] \<longleftrightarrow> (\<forall>c\<in>set s. js_ws c)"
proof -
  have "js_trim s = [] \<longleftrightarrow> (\<forall>c\<in>set (dropWhile js_ws s). js_ws c)"
    by (simp add: js_trim_def dropWhile_rev_all)
  also have "\<dots> \<longleftrightarrow> (\<forall>c\<in>set s. js_ws c)"
    by (induction s) auto
  finally show ?thesis .
qed

end
