(* ===== verification/Identity.thy ===== *)
theory Identity
  imports Prelude
begin

text \<open>
  The anonymous identity of \<open>src/src/app/page.tsx\<close>, \<open>getOrCreateAnonymousUserId\<close>
  (lines 38 to 51): a string kept in \<open>localStorage\<close> under one fixed key, read on every
  call and created once, from the clock and \<open>Math.random\<close>, when the stored value is
  missing or empty. Browser storage is a map from keys to strings; what the browser does on
  a call (storage refused, quota full, the clock, the random digits) is an environment
  record handed to each step. The lemmas show that the identity, once it exists, is
  returned unchanged by every later call and that only its own key is ever written.
\<close>

type_synonym storage = "jstr \<rightharpoonup> jstr"

text \<open>
  What the browser answers during one event callback: whether \<open>window\<close> exists (it does
  not during server rendering), whether \<open>localStorage\<close> may be touched at all (a
  \<open>SecurityError\<close> otherwise), whether \<open>setItem\<close> stays within the quota, the value of
  \<open>Date.now()\<close> and the text of \<open>Math.random().toString(36)\<close>.
\<close>

record id_env =
  has_window :: bool
  storage_ok :: bool
  quota_ok :: bool
  now_ms :: nat
  random36 :: jstr

definition anon_storage_key :: jstr where
  "anon_storage_key = js ''sogaeting_anonymous_user_id''"

text \<open>\<open>`user_${Date.now()}_${Math.random().toString(36).substring(2, 15)}`\<close>\<close>

definition fresh_user_id :: "nat \<Rightarrow> jstr \<Rightarrow> jstr" where
  "fresh_user_id now r = js ''user_'' @ dec_string now @ js ''_'' @ js_substring r 2 15"

definition get_or_create_anonymous_user_id ::
  "'e id_env_scheme \<Rightarrow> storage \<Rightarrow> js_error + (jstr \<times> storage)" where
  "get_or_create_anonymous_user_id env st =
     (if \<not> has_window env then Inr ([], st)
      else if \<not> storage_ok env then Inl SecurityError
      else
        (let stored = st anon_storage_key in
         if js_truthy stored then Inr (the stored, st)
         else
           (let u = fresh_user_id (now_ms env) (random36 env) in
            if quota_ok env then Inr (u, st(anon_storage_key \<mapsto> u))
            else Inl QuotaExceededError)))"

section \<open>Behaviour on each branch\<close>

lemma fresh_user_id_prefix: "prefix (js ''user_'') (fresh_user_id now r)"
  by (simp add: fresh_user_id_def)

lemma fresh_user_id_nonempty: "fresh_user_id now r \<noteq> []"
  by (simp add: fresh_user_id_def js_def)

lemma get_or_create_no_window:
  "\<not> has_window env \<Longrightarrow> get_or_create_anonymous_user_id env st = Inr ([], st)"
  by (simp add: get_or_create_anonymous_user_id_def)

lemma get_or_create_refused:
  "has_window env \<Longrightarrow> \<not> storage_ok env \<Longrightarrow>
     get_or_create_anonymous_user_id env st = Inl SecurityError"
  by (simp add: get_or_create_anonymous_user_id_def)

lemma get_or_create_stored:
  "has_window env \<Longrightarrow> storage_ok env \<Longrightarrow> st anon_storage_key = Some u \<Longrightarrow> u \<noteq> [] \<Longrightarrow>
     get_or_create_anonymous_user_id env st = Inr (u, st)"
  by (simp add: get_or_create_anonymous_user_id_def)

lemma get_or_create_fresh:
  "has_window env \<Longrightarrow> storage_ok env \<Longrightarrow> \<not> js_truthy (st anon_storage_key) \<Longrightarrow>
     get_or_create_anonymous_user_id env st =
       (if quota_ok env
        then Inr (fresh_user_id (now_ms env) (random36 env),
                  st(anon_storage_key \<mapsto> fresh_user_id (now_ms env) (random36 env)))
        else Inl QuotaExceededError)"
  by (simp add: get_or_create_anonymous_user_id_def Let_def)

text \<open>
  A successful call in a browser returns a non-empty identity and leaves it stored: the
  shape of every result, used by the lemmas below and by the tracking helper.
\<close>

lemma get_or_create_result:
  assumes "has_window env" and "get_or_create_anonymous_user_id env st = Inr (u, st')"
  shows "u \<noteq> [] \<and> st' anon_storage_key = Some u \<and>
         (\<forall>k. k \<noteq> anon_storage_key \<longrightarrow> st' k = st k)"
  using assms fresh_user_id_nonempty
  by (auto simp: get_or_create_anonymous_user_id_def Let_def js_truthy_def
           split: if_splits option.splits)

lemma get_or_create_frame:
  "get_or_create_anonymous_user_id env st = Inr (u, st') \<Longrightarrow> k \<noteq> anon_storage_key \<Longrightarrow>
     st' k = st k"
  by (auto simp: get_or_create_anonymous_user_id_def Let_def split: if_splits)

section \<open>Persistence of the identity\<close>

text \<open>
  C25: the identity is durable: once a call in a browser has returned an identity, every
  later call in a browser whose storage is usable returns the same identity and leaves
  storage as it is, whatever the clock and the random source say then.
\<close>

theorem get_or_create_again:
  assumes "has_window env" and "get_or_create_anonymous_user_id env st = Inr (u, st')"
    and "has_window env'" and "storage_ok env'"
  shows "get_or_create_anonymous_user_id env' st' = Inr (u, st')"
  using get_or_create_result [OF assms(1,2)] assms(3,4)
  by (simp add: get_or_create_stored)

theorem get_or_create_again_witness:
  "get_or_create_anonymous_user_id
     \<lparr>has_window = True, storage_ok = True, quota_ok = True, now_ms = 7, random36 = js ''0.abc''\<rparr>
     Map.empty = Inr (js ''user_7_abc'', [anon_storage_key \<mapsto> js ''user_7_abc'']) \<and>
   get_or_create_anonymous_user_id
     \<lparr>has_window = True, storage_ok = True, quota_ok = False, now_ms = 99, random36 = js ''0.xyz''\<rparr>
     [anon_storage_key \<mapsto> js ''user_7_abc''] =
     Inr (js ''user_7_abc'', [anon_storage_key \<mapsto> js ''user_7_abc''])"
proof -
  have first: "get_or_create_anonymous_user_id
     \<lparr>has_window = True, storage_ok = True, quota_ok = True, now_ms = 7, random36 = js ''0.abc''\<rparr>
     Map.empty = Inr (js ''user_7_abc'', [anon_storage_key \<mapsto> js ''user_7_abc''])"
    by (simp add: get_or_create_anonymous_user_id_def fresh_user_id_def dec_string.simps
                  js_substring_def js_def Let_def)
  have "get_or_create_anonymous_user_id
     \<lparr>has_window = True, storage_ok = True, quota_ok = False, now_ms = 99, random36 = js ''0.xyz''\<rparr>
     [anon_storage_key \<mapsto> js ''user_7_abc''] =
     Inr (js ''user_7_abc'', [anon_storage_key \<mapsto> js ''user_7_abc''])"
    by (rule get_or_create_again [OF _ first]) simp_all
  with first show ?thesis by simp
qed

end
