(* ===== verification/State.thy ===== *)
theory State
  imports Tracking
begin

text \<open>
  The state of the page component \<open>Home\<close> of \<open>src/src/app/page.tsx\<close>: its
  \<open>useState\<close> hooks and the \<open>surveyProgressRef\<close> ref (lines 9 to 22), the blocking
  alerts it shows, and what the browser holds for it between callbacks: the window
  listeners installed by the effect (with the state values their closures captured), the
  continuations waiting on a timer, and the pending hide-timers of the signup message. The
  record extends the tracking state, so the tracking helper runs on it unchanged; the
  lemmas here say that the helper leaves every field of the page alone.
\<close>

text \<open>The four \<open>alert(...)\<close> calls of the page.\<close>

datatype alert =
    AlertSurveyIncomplete  \<comment> \<open>line 128\<close>
  | AlertSurveyError  \<comment> \<open>line 181\<close>
  | AlertContactEmpty  \<comment> \<open>line 192\<close>
  | AlertInterestError  \<comment> \<open>line 222\<close>

text \<open>The answers captured by a survey submission waiting on its timer: gender, age group,
  interest, reaction.\<close>

type_synonym answers = "jstr \<times> jstr \<times> jstr \<times> jstr"

text \<open>The effect's dependencies \<open>[scrollDepthTracked, hasStartedSurvey, isSubmitted]\<close>.\<close>

type_synonym deps = "bool \<times> bool \<times> bool"

record page = trk +
  email_or_id :: jstr
  reaction :: "jstr option"
  gender :: "jstr option"
  age_group :: "jstr option"
  interest :: "jstr option"
  source :: "jstr option"
  is_submitting :: bool
  is_submitted :: bool
  has_started_survey :: bool
  scroll_depth_tracked :: bool
  is_interest_submitting :: bool
  is_interest_submitted :: bool
  survey_progress :: nat
  alerts :: "alert list"
  listeners :: "deps option"
  survey_wait :: "answers option"
  interest_wait :: bool
  revert_timers :: nat

text \<open>
  The first render: every hook at its initial value, no listener yet (the effect runs
  after the first commit), and whatever an earlier visit left in \<open>localStorage\<close>.
\<close>

definition init_page :: "storage \<Rightarrow> page" where
  "init_page st =
     \<lparr>storage = st, sink = [], email_or_id = [], reaction = None, gender = None,
      age_group = None, interest = None, source = None, is_submitting = False,
      is_submitted = False, has_started_survey = False, scroll_depth_tracked = False,
      is_interest_submitting = False, is_interest_submitted = False, survey_progress = 0,
      alerts = [], listeners = None, survey_wait = None, interest_wait = False,
      revert_timers = 0\<rparr>"

definition effect_deps :: "page \<Rightarrow> deps" where
  "effect_deps s = (scroll_depth_tracked s, has_started_survey s, is_submitted s)"

section \<open>The tracking helper keeps the page's fields\<close>

lemma track_event_page [simp]:
  fixes s :: page
  shows "email_or_id (track_event cfg env n ps s) = email_or_id s"
    and "reaction (track_event cfg env n ps s) = reaction s"
    and "gender (track_event cfg env n ps s) = gender s"
    and "age_group (track_event cfg env n ps s) = age_group s"
    and "interest (track_event cfg env n ps s) = interest s"
    and "source (track_event cfg env n ps s) = source s"
    and "is_submitting (track_event cfg env n ps s) = is_submitting s"
    and "is_submitted (track_event cfg env n ps s) = is_submitted s"
    and "has_started_survey (track_event cfg env n ps s) = has_started_survey s"
    and "scroll_depth_tracked (track_event cfg env n ps s) = scroll_depth_tracked s"
    and "is_interest_submitting (track_event cfg env n ps s) = is_interest_submitting s"
    and "is_interest_submitted (track_event cfg env n ps s) = is_interest_submitted s"
    and "survey_progress (track_event cfg env n ps s) = survey_progress s"
    and "alerts (track_event cfg env n ps s) = alerts s"
    and "listeners (track_event cfg env n ps s) = listeners s"
    and "survey_wait (track_event cfg env n ps s) = survey_wait s"
    and "interest_wait (track_event cfg env n ps s) = interest_wait s"
    and "revert_timers (track_event cfg env n ps s) = revert_timers s"
  by (cases rule: track_event_cases [of cfg env n ps s]; simp)+

lemma effect_deps_track_event [simp]: "effect_deps (track_event cfg env n ps s) = effect_deps s"
  by (simp add: effect_deps_def)

end
