(* ===== verification/Survey.thy ===== *)
theory Survey
  imports State
begin

text \<open>
  The survey of \<open>src/src/app/page.tsx\<close>: four single-choice questions whose buttons are
  generated from lists of \<open>{key, label}\<close> items (lines 535 to 672), and the submit
  handler \<open>onSubmitSurvey\<close> (lines 125 to 185), which checks that every answer is set,
  waits on a timer standing in for the network, translates each key to its label through
  a second set of tables and sends one event. The handler is split at its \<open>await\<close>:
  \<open>on_submit_survey\<close> runs up to the timer and records the answers its closure holds;
  \<open>survey_resume\<close> is the continuation the timer runs. The labels are Korean text,
  written by their code points.
\<close>

section \<open>The answer items of the buttons\<close>

definition gender_items :: "(jstr \<times> jstr) list" where
  "gender_items = [(js ''male'', [0xB0A8, 0xC131]), (js ''female'', [0xC5EC, 0xC131])]"

definition age_group_items :: "(jstr \<times> jstr) list" where
  "age_group_items =
     [(js ''20-24'', js ''20~24'' @ [0xC138]), (js ''25-29'', js ''25~29'' @ [0xC138]),
      (js ''30-34'', js ''30~34'' @ [0xC138]), (js ''35-39'', js ''35~39'' @ [0xC138]),
      (js ''40+'', js ''40'' @ [0xC138, 32, 0xC774, 0xC0C1])]"

definition interest_items :: "(jstr \<times> jstr) list" where
  "interest_items =
     [(js ''yes'', [0xB124] @ js '', '' @ [0xCC38, 0xC5EC, 0xD558, 0xACE0, 32, 0xC2F6, 0xC5B4, 0xC694]),
      (js ''maybe'', [0xC0DD, 0xAC01, 0xD574, 0xBCFC, 0xAC8C, 0xC694]),
      (js ''no'', [0xC544, 0xC9C1, 32, 0xC798, 32, 0xBAA8, 0xB974, 0xACA0, 0xC5B4, 0xC694])]"

text \<open>The reaction items also carry an emoji, which is only displayed.\<close>

definition reaction_items :: "(jstr \<times> jstr) list" where
  "reaction_items =
     [(js ''love'', [0xC644, 0xC804, 32, 0xD765, 0xBBF8, 0xB85C, 0xC6CC, 0xC694]),
      (js ''curious'', [0xAD81, 0xAE08, 0xD574, 0xC694] @ js '', '' @
                       [0xC5B4, 0xB5BB, 0xAC8C, 32, 0xC9C4, 0xD589, 0xB3FC, 0xC694] @ js ''?''),
      (js ''nervous'', [0xC7AC, 0xBC0C, 0xAE34, 32, 0xD55C, 0xB370, 32, 0xC870, 0xAE08, 32,
                        0xB0AF, 0xC124, 0xC5B4, 0xC694]),
      (js ''unknown'', [0xC544, 0xC9C1, 32, 0xC798, 32, 0xBAA8, 0xB974, 0xACA0, 0xC5B4, 0xC694])]"

section \<open>The label tables of the submit handler\<close>

definition gender_labels :: "(jstr \<times> jstr) list" where
  "gender_labels = [(js ''male'', [0xB0A8, 0xC131]), (js ''female'', [0xC5EC, 0xC131])]"

definition age_group_labels :: "(jstr \<times> jstr) list" where
  "age_group_labels =
     [(js ''20-24'', js ''20~24'' @ [0xC138]), (js ''25-29'', js ''25~29'' @ [0xC138]),
      (js ''30-34'', js ''30~34'' @ [0xC138]), (js ''35-39'', js ''35~39'' @ [0xC138]),
      (js ''40+'', js ''40'' @ [0xC138, 32, 0xC774, 0xC0C1])]"

definition interest_labels :: "(jstr \<times> jstr) list" where
  "interest_labels =
     [(js ''yes'', [0xB124] @ js '', '' @ [0xCC38, 0xC5EC, 0xD558, 0xACE0, 32, 0xC2F6, 0xC5B4, 0xC694]),
      (js ''maybe'', [0xC0DD, 0xAC01, 0xD574, 0xBCFC, 0xAC8C, 0xC694]),
      (js ''no'', [0xC544, 0xC9C1, 32, 0xC798, 32, 0xBAA8, 0xB974, 0xACA0, 0xC5B4, 0xC694])]"

definition reaction_labels :: "(jstr \<times> jstr) list" where
  "reaction_labels =
     [(js ''love'', [0xC644, 0xC804, 32, 0xD765, 0xBBF8, 0xB85C, 0xC6CC, 0xC694]),
      (js ''curious'', [0xAD81, 0xAE08, 0xD574, 0xC694] @ js '', '' @
                       [0xC5B4, 0xB5BB, 0xAC8C, 32, 0xC9C4, 0xD589, 0xB3FC, 0xC694] @ js ''?''),
      (js ''nervous'', [0xC7AC, 0xBC0C, 0xAE34, 32, 0xD55C, 0xB370, 32, 0xC870, 0xAE08, 32,
                        0xB0AF, 0xC124, 0xC5B4, 0xC694]),
      (js ''unknown'', [0xC544, 0xC9C1, 32, 0xC798, 32, 0xBAA8, 0xB974, 0xACA0, 0xC5B4, 0xC694])]"

text \<open>\<open>labels[key] || key\<close>: the label of a key, the key itself when the table has none.\<close>

definition label_of :: "(jstr \<times> jstr) list \<Rightarrow> jstr \<Rightarrow> jstr" where
  "label_of tbl k = js_or (map_of tbl k) k"

section \<open>Selecting an answer\<close>

text \<open>
  The \<open>onClick\<close> of a gender button (lines 542 to 552): set the answer; on the first
  click, when \<open>hasStartedSurvey\<close> is still false, send \<open>start survey\<close> and set the latch;
  send \<open>select gender\<close> with the item's label; set the progress ref to
  \<open>Math.round((1 / 5) * 100)\<close>.
\<close>

definition select_gender :: "config \<Rightarrow> env \<Rightarrow> jstr \<times> jstr \<Rightarrow> page \<Rightarrow> page" where
  "select_gender cfg env item s =
     (let s1 = s\<lparr>gender := Some (fst item)\<rparr>;
          s2 = (if \<not> has_started_survey s
                then (track_event cfg env (js ''start survey'') [] s1)\<lparr>has_started_survey := True\<rparr>
                else s1);
          s3 = track_event cfg env (js ''select gender'') [(js ''gender'', JStr (snd item))] s2
      in s3\<lparr>survey_progress := js_round_percent 1 5\<rparr>)"

text \<open>The age group buttons (lines 585 to 589): no latch, progress \<open>2 / 5\<close>.\<close>

definition select_age_group :: "config \<Rightarrow> env \<Rightarrow> jstr \<times> jstr \<Rightarrow> page \<Rightarrow> page" where
  "select_age_group cfg env item s =
     (let s1 = s\<lparr>age_group := Some (fst item)\<rparr>;
          s2 = track_event cfg env (js ''select age group'') [(js ''age_group'', JStr (snd item))] s1
      in s2\<lparr>survey_progress := js_round_percent 2 5\<rparr>)"

text \<open>The interest buttons (lines 620 to 624): progress \<open>3 / 5\<close>.\<close>

definition select_interest :: "config \<Rightarrow> env \<Rightarrow> jstr \<times> jstr \<Rightarrow> page \<Rightarrow> page" where
  "select_interest cfg env item s =
     (let s1 = s\<lparr>interest := Some (fst item)\<rparr>;
          s2 = track_event cfg env (js ''select interest'') [(js ''interest'', JStr (snd item))] s1
      in s2\<lparr>survey_progress := js_round_percent 3 5\<rparr>)"

text \<open>The reaction buttons (lines 657 to 661): progress \<open>4 / 5\<close>.\<close>

definition select_reaction :: "config \<Rightarrow> env \<Rightarrow> jstr \<times> jstr \<Rightarrow> page \<Rightarrow> page" where
  "select_reaction cfg env item s =
     (let s1 = s\<lparr>reaction := Some (fst item)\<rparr>;
          s2 = track_event cfg env (js ''select reaction'') [(js ''reaction'', JStr (snd item))] s1
      in s2\<lparr>survey_progress := js_round_percent 4 5\<rparr>)"

section \<open>Submitting\<close>

text \<open>
  \<open>onSubmitSurvey\<close> up to its \<open>await\<close> (lines 125 to 136): an unset answer shows the
  alert and returns; otherwise \<open>isSubmitting\<close> is set and the timer starts, its
  continuation holding the four answers of the closure.
\<close>

definition on_submit_survey :: "page \<Rightarrow> page" where
  "on_submit_survey s =
     (if \<not> js_truthy (gender s) \<or> \<not> js_truthy (age_group s) \<or> \<not> js_truthy (interest s)
         \<or> \<not> js_truthy (reaction s)
      then s\<lparr>alerts := alerts s @ [AlertSurveyIncomplete]\<rparr>
      else s\<lparr>is_submitting := True,
              survey_wait := Some (the (gender s), the (age_group s), the (interest s),
                                   the (reaction s))\<rparr>)"

text \<open>\<open>surveyData\<close> (lines 166 to 171).\<close>

definition survey_data :: "answers \<Rightarrow> props" where
  "survey_data ans =
     (case ans of (g, a, i, r) \<Rightarrow>
       [(js ''gender'', JStr (label_of gender_labels g)),
        (js ''age_group'', JStr (label_of age_group_labels a)),
        (js ''interest'', JStr (label_of interest_labels i)),
        (js ''reaction'', JStr (label_of reaction_labels r))])"

text \<open>
  The continuation after the timer (lines 138 to 184): send \<open>submit survey\<close> with the
  labels, set \<open>isSubmitted\<close>, and in \<open>finally\<close> clear \<open>isSubmitting\<close>. Nothing in the
  \<open>try\<close> block can throw (the helper catches its own errors and the timer's promise
  never rejects), so the \<open>catch\<close> branch with its alert is not reachable and has no
  counterpart here.
\<close>

definition survey_resume :: "config \<Rightarrow> env \<Rightarrow> answers \<Rightarrow> page \<Rightarrow> page" where
  "survey_resume cfg env ans s =
     (let s1 = track_event cfg env (js ''submit survey'') (survey_data ans) s
      in s1\<lparr>is_submitted := True, is_submitting := False, survey_wait := None\<rparr>)"

lemmas select_defs [page_simps] =
  select_gender_def select_age_group_def select_interest_def select_reaction_def

section \<open>Lemmas on the tables\<close>

lemmas item_tables = gender_items_def age_group_items_def interest_items_def reaction_items_def
lemmas label_tables = gender_labels_def age_group_labels_def interest_labels_def reaction_labels_def

lemma label_of_member:
  "distinct (map fst tbl) \<Longrightarrow> (k, l) \<in> set tbl \<Longrightarrow> l \<noteq> [] \<Longrightarrow> label_of tbl k = l"
  by (simp add: label_of_def map_of_is_SomeI)

text \<open>The buttons and the submit handler carry the same key-to-label tables.\<close>

lemma items_are_labels:
  "gender_items = gender_labels" "age_group_items = age_group_labels"
  "interest_items = interest_labels" "reaction_items = reaction_labels"
  by (simp_all add: item_tables label_tables)

lemma label_tables_distinct:
  "distinct (map fst gender_labels)" "distinct (map fst age_group_labels)"
  "distinct (map fst interest_labels)" "distinct (map fst reaction_labels)"
  by (simp_all add: label_tables)

lemma label_tables_nonempty:
  "(k, l) \<in> set gender_labels \<Longrightarrow> l \<noteq> []" "(k, l) \<in> set age_group_labels \<Longrightarrow> l \<noteq> []"
  "(k, l) \<in> set interest_labels \<Longrightarrow> l \<noteq> []" "(k, l) \<in> set reaction_labels \<Longrightarrow> l \<noteq> []"
  by (auto simp: label_tables)

lemmas label_of_item =
  label_of_member [OF label_tables_distinct(1) _ label_tables_nonempty(1)]
  label_of_member [OF label_tables_distinct(2) _ label_tables_nonempty(2)]
  label_of_member [OF label_tables_distinct(3) _ label_tables_nonempty(3)]
  label_of_member [OF label_tables_distinct(4) _ label_tables_nonempty(4)]

section \<open>Properties of the survey\<close>

text \<open>
  C1: the \<open>submit survey\<close> payload. For answers chosen from the buttons, the event
  sends, under \<open>gender\<close>, \<open>age_group\<close>, \<open>interest\<close> and \<open>reaction\<close>, exactly the
  label shown on the chosen button, never the raw key.
\<close>

theorem survey_data_labels:
  assumes "(g, lg) \<in> set gender_items" and "(a, la) \<in> set age_group_items"
    and "(i, li) \<in> set interest_items" and "(r, lr) \<in> set reaction_items"
  shows "survey_data (g, a, i, r) =
           [(js ''gender'', JStr lg), (js ''age_group'', JStr la),
            (js ''interest'', JStr li), (js ''reaction'', JStr lr)]"
  using assms by (simp add: survey_data_def items_are_labels label_of_item)

theorem survey_data_labels_witness:
  "survey_data (js ''female'', js ''40+'', js ''maybe'', js ''curious'') =
     [(js ''gender'', JStr [0xC5EC, 0xC131]),
      (js ''age_group'', JStr (js ''40'' @ [0xC138, 32, 0xC774, 0xC0C1])),
      (js ''interest'', JStr [0xC0DD, 0xAC01, 0xD574, 0xBCFC, 0xAC8C, 0xC694]),
      (js ''reaction'', JStr ([0xAD81, 0xAE08, 0xD574, 0xC694] @ js '', '' @
                   [0xC5B4, 0xB5BB, 0xAC8C, 32, 0xC9C4, 0xD589, 0xB3FC, 0xC694] @ js ''?''))]"
  by (rule survey_data_labels) (simp_all add: item_tables)

end
