(* ===== verification/Signup.thy ===== *)
theory Signup
  imports State
begin

text \<open>
  The signup form of \<open>src/src/app/page.tsx\<close>: a text input bound to \<open>emailOrId\<close>
  (line 761) and the submit handler \<open>onSubmit\<close> (lines 187 to 226). The handler trims
  the input, refuses an empty value with an alert, classifies the value, sends one event,
  and waits on a timer; its continuation shows the success message and clears the input,
  and starts a second timer that hides the message again after three seconds. The
  handler is split at its \<open>await\<close> as the survey's is.
\<close>

text \<open>\<open>contactType\<close> (lines 200 and 201).\<close>

definition contact_type_of :: "jstr \<Rightarrow> jstr" where
  "contact_type_of v =
     (if js_includes v (js ''@'') then js ''email''
      else if 0 < length v then js ''instagram_id'' else js ''kakao_id'')"

text \<open>The \<open>onChange\<close> of the input.\<close>

definition set_email_or_id :: "jstr \<Rightarrow> page \<Rightarrow> page" where
  "set_email_or_id v s = s\<lparr>email_or_id := v\<rparr>"

text \<open>
  \<open>onSubmit\<close> up to its \<open>await\<close> (lines 187 to 210): the empty value shows the alert
  and returns; otherwise \<open>isInterestSubmitting\<close> is set, the event is sent with the
  classification, the trimmed value and \<open>has_value\<close>, and the timer starts.
\<close>

definition on_submit :: "config \<Rightarrow> env \<Rightarrow> page \<Rightarrow> page" where
  "on_submit cfg env s =
     (let v = js_trim (email_or_id s) in
      if v = [] then s\<lparr>alerts := alerts s @ [AlertContactEmpty]\<rparr>
      else
        (let s1 = s\<lparr>is_interest_submitting := True\<rparr>;
             s2 = track_event cfg env (js ''submit interest'')
                    [(js ''contact_type'', JStr (contact_type_of v)),
                     (js ''contact_value'', JStr v),
                     (js ''has_value'', JBool (0 < length v))] s1
         in s2\<lparr>interest_wait := True\<rparr>))"

text \<open>
  The continuation after the timer (lines 212 to 225): show the success message, clear
  the input, start the three-second timer, and in \<open>finally\<close> clear
  \<open>isInterestSubmitting\<close>. As in the survey, nothing in the \<open>try\<close> block throws, so
  the \<open>catch\<close> branch is not reachable.
\<close>

definition interest_resume :: "page \<Rightarrow> page" where
  "interest_resume s =
     s\<lparr>is_interest_submitted := True, email_or_id := [], revert_timers := Suc (revert_timers s),
       is_interest_submitting := False, interest_wait := False\<rparr>"

text \<open>The three-second timer (lines 217 to 219): hide the message.\<close>

definition interest_revert :: "page \<Rightarrow> page" where
  "interest_revert s = s\<lparr>is_interest_submitted := False, revert_timers := revert_timers s - 1\<rparr>"

section \<open>The handler on each branch\<close>

lemma on_submit_empty:
  "js_trim (email_or_id s) = [] \<Longrightarrow> on_submit cfg env s = s\<lparr>alerts := alerts s @ [AlertContactEmpty]\<rparr>"
  by (simp add: on_submit_def)

lemma contact_type_of_nonempty:
  "v \<noteq> [] \<Longrightarrow> contact_type_of v = (if 64 \<in> set v then js ''email'' else js ''instagram_id'')"
  by (simp add: contact_type_of_def js_def)

section \<open>Properties of the signup handler\<close>

text \<open>
  C16: a non-blank contact is sent trimmed, classified as \<open>email\<close> exactly when it
  contains \<open>@\<close> and as \<open>instagram_id\<close> otherwise (never \<open>kakao_id\<close>), with
  \<open>has_value\<close> true; the handler marks the form as submitting and starts its timer.
\<close>

theorem on_submit_classifies:
  assumes "js_trim (email_or_id s) = v" and "v \<noteq> []"
  shows "on_submit cfg env s =
           (track_event cfg env (js ''submit interest'')
              [(js ''contact_type'', JStr (if 64 \<in> set v then js ''email'' else js ''instagram_id'')),
               (js ''contact_value'', JStr v),
               (js ''has_value'', JBool True)]
              (s\<lparr>is_interest_submitting := True\<rparr>))\<lparr>interest_wait := True\<rparr>"
  using assms by (simp add: on_submit_def Let_def contact_type_of_nonempty)

theorem on_submit_classifies_witness:
  "js_trim (email_or_id ((init_page Map.empty)\<lparr>email_or_id := js ''  a@b.com ''\<rparr>)) = js ''a@b.com'' \<and>
   sink (on_submit (Some (js ''k''))
           \<lparr>has_window = True, storage_ok = True, quota_ok = True, now_ms = 0, random36 = [],
            sink_ok = (\<lambda>_. True)\<rparr>
           ((init_page Map.empty)\<lparr>email_or_id := js ''  a@b.com ''\<rparr>)) =
     [AmpTrack (js ''submit interest'')
        [(js ''contact_type'', JStr (js ''email'')), (js ''contact_value'', JStr (js ''a@b.com'')),
         (js ''has_value'', JBool True), (anon_prop, JStr (js ''user_0_''))]]"
proof -
  have t: "js_trim (email_or_id ((init_page Map.empty)\<lparr>email_or_id := js ''  a@b.com ''\<rparr>)) =
             js ''a@b.com''"
    by (simp add: js_trim_def js_def js_ws_def)
  have n: "js ''a@b.com'' \<noteq> []" by (simp add: js_def)
  have e: "sink (track_event (Some (js ''k''))
              \<lparr>has_window = True, storage_ok = True, quota_ok = True, now_ms = 0, random36 = [],
               sink_ok = (\<lambda>_. True)\<rparr> (js ''submit interest'')
              [(js ''contact_type'', JStr (js ''email'')),
               (js ''contact_value'', JStr (js ''a@b.com'')),
               (js ''has_value'', JBool True)]
              ((init_page Map.empty)\<lparr>email_or_id := js ''  a@b.com '', is_interest_submitting := True\<rparr>)) =
     [AmpTrack (js ''submit interest'')
        [(js ''contact_type'', JStr (js ''email'')), (js ''contact_value'', JStr (js ''a@b.com'')),
         (js ''has_value'', JBool True), (anon_prop, JStr (js ''user_0_''))]]"
    by (simp add: track_event_def api_key_def js_trim_def js_ws_def js_def init_page_def
        get_or_create_anonymous_user_id_def fresh_user_id_def dec_string.simps js_substring_def
        amp_send_def anon_storage_key_def anon_prop_def js_set_def Let_def)
  have c: "(if 64 \<in> set (js ''a@b.com'') then js ''email'' else js ''instagram_id'') = js ''email''"
    by (simp add: js_def)
  show ?thesis
    using on_submit_classifies [OF t n] t e c by simp
qed

end
