(* ===== verification/Observer.thy ===== *)
theory Observer
  imports State
begin

text \<open>
  The effect of \<open>src/src/app/page.tsx\<close> (lines 70 to 123). On every run it initialises
  the SDK, assigns the identity and sends \<open>view landing\<close> (when a key is configured), and
  installs two window listeners: \<open>handleScroll\<close>, which sends \<open>scroll depth\<close> the first
  time the page is scrolled half-way, and \<open>handleBeforeUnload\<close>, which sends
  \<open>abandon survey\<close> when the survey was started and not submitted. The listeners read
  \<open>scrollDepthTracked\<close>, \<open>hasStartedSurvey\<close> and \<open>isSubmitted\<close> from the render
  that installed them, so the model stores those captured values with the listeners. React
  runs the effect after a commit whose dependencies differ from those of its last run,
  removing the old listeners first; \<open>commit\<close> is that step.
\<close>

section \<open>Scroll depth\<close>

text \<open>What the scroll handler reads from the window.\<close>

record viewport =
  inner_height :: int
  scroll_height :: int
  scroll_y :: int
  doc_scroll_top :: int

text \<open>
  \<open>scrollTop = window.scrollY || document.documentElement.scrollTop\<close> and
  \<open>(scrollTop / (documentHeight - windowHeight)) * 100 >= 50\<close> (lines 96 to 101).
\<close>

definition scroll_top :: "viewport \<Rightarrow> int" where
  "scroll_top vp = (if scroll_y vp \<noteq> 0 then scroll_y vp else doc_scroll_top vp)"

definition scroll_reached :: "viewport \<Rightarrow> bool" where
  "scroll_reached vp =
     js_ge (js_mul (js_div (scroll_top vp) (scroll_height vp - inner_height vp)) 100) 50"

text \<open>\<open>handleScroll\<close> (lines 93 to 105), with the captured dependencies \<open>d\<close>.\<close>

definition handle_scroll :: "config \<Rightarrow> env \<Rightarrow> viewport \<Rightarrow> deps \<Rightarrow> page \<Rightarrow> page" where
  "handle_scroll cfg env vp d s =
     (if fst d then s
      else if scroll_reached vp
      then (track_event cfg env (js ''scroll depth'') [(js ''depth_percent'', JNum 50)] s)
             \<lparr>scroll_depth_tracked := True\<rparr>
      else s)"

section \<open>Abandonment\<close>

text \<open>\<open>handleBeforeUnload\<close> (lines 110 to 115); the progress is read from the ref.\<close>

definition handle_before_unload :: "config \<Rightarrow> env \<Rightarrow> deps \<Rightarrow> page \<Rightarrow> page" where
  "handle_before_unload cfg env d s =
     (if fst (snd d) \<and> \<not> snd (snd d)
      then track_event cfg env (js ''abandon survey'')
             [(js ''progress_percent'', JNum (int (survey_progress s)))] s
      else s)"

section \<open>The effect\<close>

text \<open>
  The \<open>try\<close> block of lines 74 to 89: \<open>amplitude.init\<close>, the identity,
  \<open>amplitude.setUserId\<close> and \<open>view landing\<close>; a throw stops the block and keeps what
  was done before it.
\<close>

definition init_amplitude :: "config \<Rightarrow> env \<Rightarrow> page \<Rightarrow> page" where
  "init_amplitude cfg env s =
     (let key = api_key cfg in
      if key \<noteq> [] then
        (case amp_send env (AmpInit key) s of
           Inl _ \<Rightarrow> s
         | Inr s1 \<Rightarrow>
             (case get_or_create_anonymous_user_id env (storage s1) of
                Inl _ \<Rightarrow> s1
              | Inr (u, st) \<Rightarrow>
                  (let s2 = s1\<lparr>storage := st\<rparr> in
                   case amp_send env (AmpSetUserId u) s2 of
                     Inl _ \<Rightarrow> s2
                   | Inr s3 \<Rightarrow> track_event cfg env (js ''view landing'') [] s3)))
      else s)"

text \<open>One run of the effect: the block above, then the two listeners, which capture the
  dependencies of the current render.\<close>

definition run_effect :: "config \<Rightarrow> env \<Rightarrow> page \<Rightarrow> page" where
  "run_effect cfg env s = (init_amplitude cfg env s)\<lparr>listeners := Some (effect_deps s)\<rparr>"

definition commit :: "config \<Rightarrow> env \<Rightarrow> page \<Rightarrow> page" where
  "commit cfg env s = (if listeners s = Some (effect_deps s) then s else run_effect cfg env s)"

section \<open>Frame of the effect\<close>

text \<open>The effect's block writes storage and the sink's log only.\<close>

lemma init_amplitude_page [simp]:
  "effect_deps (init_amplitude cfg env s) = effect_deps s"
  "gender (init_amplitude cfg env s) = gender s"
  "age_group (init_amplitude cfg env s) = age_group s"
  "interest (init_amplitude cfg env s) = interest s"
  "reaction (init_amplitude cfg env s) = reaction s"
  "email_or_id (init_amplitude cfg env s) = email_or_id s"
  "is_submitting (init_amplitude cfg env s) = is_submitting s"
  "is_submitted (init_amplitude cfg env s) = is_submitted s"
  "has_started_survey (init_amplitude cfg env s) = has_started_survey s"
  "scroll_depth_tracked (init_amplitude cfg env s) = scroll_depth_tracked s"
  "is_interest_submitting (init_amplitude cfg env s) = is_interest_submitting s"
  "is_interest_submitted (init_amplitude cfg env s) = is_interest_submitted s"
  "survey_progress (init_amplitude cfg env s) = survey_progress s"
  "alerts (init_amplitude cfg env s) = alerts s"
  "listeners (init_amplitude cfg env s) = listeners s"
  "survey_wait (init_amplitude cfg env s) = survey_wait s"
  "interest_wait (init_amplitude cfg env s) = interest_wait s"
  "revert_timers (init_amplitude cfg env s) = revert_timers s"
  unfolding init_amplitude_def amp_send_def Let_def effect_deps_def
  by (auto split: sum.splits prod.splits)

section \<open>The half-way test\<close>

text \<open>
  C26: on a scrollable page the handler's test holds exactly when the scroll offset is
  at least half of the scrollable distance, \<open>2 * scrollTop >= documentHeight - windowHeight\<close>;
  on a page that does not scroll, the division by zero makes it hold exactly when the
  offset is positive (\<open>Infinity >= 50\<close>, while \<open>0 / 0\<close> is \<open>NaN\<close>).
\<close>

theorem scroll_reached_iff:
  "(inner_height vp < scroll_height vp \<longrightarrow>
      (scroll_reached vp \<longleftrightarrow> scroll_height vp - inner_height vp \<le> 2 * scroll_top vp)) \<and>
   (scroll_height vp = inner_height vp \<longrightarrow> (scroll_reached vp \<longleftrightarrow> 0 < scroll_top vp))"
proof (intro conjI impI)
  assume lt: "inner_height vp < scroll_height vp"
  let ?d = "scroll_height vp - inner_height vp" and ?t = "scroll_top vp"
  from lt have d: "0 < ?d" by simp
  have "scroll_reached vp \<longleftrightarrow> (50::rat) \<le> of_int ?t / of_int ?d * 100"
    using d by (simp add: scroll_reached_def js_div_def)
  also have "\<dots> \<longleftrightarrow> (of_int ?d :: rat) \<le> of_int (2 * ?t)"
    using d by (simp add: field_simps) linarith
  also have "\<dots> \<longleftrightarrow> ?d \<le> 2 * ?t"
    by (rule of_int_le_iff)
  finally show "scroll_reached vp \<longleftrightarrow> ?d \<le> 2 * ?t" .
next
  assume "scroll_height vp = inner_height vp"
  then show "scroll_reached vp \<longleftrightarrow> 0 < scroll_top vp"
    by (simp add: scroll_reached_def js_div_def)
qed

theorem scroll_reached_iff_witness:
  "\<not> scroll_reached \<lparr>inner_height = 800, scroll_height = 2800, scroll_y = 0, doc_scroll_top = 999\<rparr> \<and>
   scroll_reached \<lparr>inner_height = 800, scroll_height = 800, scroll_y = 0, doc_scroll_top = 1\<rparr>"
  using scroll_reached_iff [of "\<lparr>inner_height = 800, scroll_height = 2800, scroll_y = 0, doc_scroll_top = 999\<rparr>"]
        scroll_reached_iff [of "\<lparr>inner_height = 800, scroll_height = 800, scroll_y = 0, doc_scroll_top = 1\<rparr>"]
  by (simp add: scroll_top_def)

end
