(* ===== verification/Page.thy ===== *)
theory Page
  imports Survey Signup Observer
begin

text \<open>
  The page as a whole: the events a visitor and the browser deliver, the handler each one
  runs in \<open>src/src/app/page.tsx\<close>, and the conditions under which the rendered page
  lets it happen. The survey is rendered only until it is submitted (line 496), its option
  buttons are disabled while submitting (lines 553, 590, 625, 662) and its submit button
  also while an answer is missing (line 700); the signup form is rendered only while the
  success message is hidden (line 725) and is disabled while submitting (lines 762, 767).
  A click or a keystroke is a discrete event, after which React commits synchronously and
  runs the effect; a timer callback or a scroll leaves its updates to a later render,
  which is the separate \<open>Commit\<close> event. A run starts at the first commit.
\<close>

datatype ui_event =
    Commit
  | ClickGender nat | ClickAgeGroup nat | ClickInterest nat | ClickReaction nat
  | ClickSubmitSurvey | SurveyTimer
  | InputChange jstr | SubmitInterest | InterestTimer | RevertTimer
  | Scroll viewport | BeforeUnload | ClickInstagram

definition all_answered :: "page \<Rightarrow> bool" where
  "all_answered s \<longleftrightarrow>
     js_truthy (gender s) \<and> js_truthy (age_group s) \<and> js_truthy (interest s) \<and> js_truthy (reaction s)"

definition options_enabled :: "page \<Rightarrow> bool" where
  "options_enabled s \<longleftrightarrow> \<not> is_submitted s \<and> \<not> is_submitting s"

definition submit_survey_enabled :: "page \<Rightarrow> bool" where
  "submit_survey_enabled s \<longleftrightarrow> \<not> is_submitted s \<and> \<not> (is_submitting s \<or> \<not> all_answered s)"

definition signup_enabled :: "page \<Rightarrow> bool" where
  "signup_enabled s \<longleftrightarrow> \<not> is_interest_submitted s \<and> \<not> is_interest_submitting s"

text \<open>A click on the \<open>i\<close>-th button generated from an item list.\<close>

definition click_option ::
  "config \<Rightarrow> env \<Rightarrow> (jstr \<times> jstr) list \<Rightarrow> nat \<Rightarrow> (jstr \<times> jstr \<Rightarrow> page \<Rightarrow> page) \<Rightarrow> page \<Rightarrow> page" where
  "click_option cfg env items i h s =
     (if options_enabled s \<and> i < length items then commit cfg env (h (items ! i) s) else s)"

fun page_step :: "config \<Rightarrow> env \<Rightarrow> ui_event \<Rightarrow> page \<Rightarrow> page" where
  "page_step cfg env Commit s = commit cfg env s"
| "page_step cfg env (ClickGender i) s =
     click_option cfg env gender_items i (select_gender cfg env) s"
| "page_step cfg env (ClickAgeGroup i) s =
     click_option cfg env age_group_items i (select_age_group cfg env) s"
| "page_step cfg env (ClickInterest i) s =
     click_option cfg env interest_items i (select_interest cfg env) s"
| "page_step cfg env (ClickReaction i) s =
     click_option cfg env reaction_items i (select_reaction cfg env) s"
| "page_step cfg env ClickSubmitSurvey s =
     (if submit_survey_enabled s then commit cfg env (on_submit_survey s) else s)"
| "page_step cfg env SurveyTimer s =
     (case survey_wait s of None \<Rightarrow> s | Some a \<Rightarrow> survey_resume cfg env a s)"
| "page_step cfg env (InputChange v) s =
     (if signup_enabled s then commit cfg env (set_email_or_id v s) else s)"
| "page_step cfg env SubmitInterest s =
     (if signup_enabled s then commit cfg env (on_submit cfg env s) else s)"
| "page_step cfg env InterestTimer s = (if interest_wait s then interest_resume s else s)"
| "page_step cfg env RevertTimer s = (if 0 < revert_timers s then interest_revert s else s)"
| "page_step cfg env (Scroll vp) s =
     (case listeners s of None \<Rightarrow> s | Some d \<Rightarrow> handle_scroll cfg env vp d s)"
| "page_step cfg env BeforeUnload s =
     (case listeners s of None \<Rightarrow> s | Some d \<Rightarrow> handle_before_unload cfg env d s)"
| "page_step cfg env ClickInstagram s =
     commit cfg env (track_event cfg env (js ''click instagram'') [] s)"

text \<open>A run: the events of a visit, each with the browser's answers during it.\<close>

fun run :: "config \<Rightarrow> (env \<times> ui_event) list \<Rightarrow> page \<Rightarrow> page" where
  "run cfg [] s = s"
| "run cfg ((env, ev) # evs) s = run cfg evs (page_step cfg env ev s)"

text \<open>
  The states a visit reaches: from the first commit of the initial render, any event in
  a browser (where \<open>window\<close> exists), with any answers of the browser and the sink.
\<close>

inductive reachable :: "config \<Rightarrow> page \<Rightarrow> bool" for cfg where
  mount: "has_window env \<Longrightarrow> reachable cfg (commit cfg env (init_page st))"
| step: "reachable cfg s \<Longrightarrow> has_window env \<Longrightarrow> reachable cfg (page_step cfg env ev s)"

section \<open>Runs and reachable states\<close>

lemma run_append: "run cfg (xs @ ys) s = run cfg ys (run cfg xs s)"
  by (induction xs arbitrary: s) auto

lemma reachable_run:
  "reachable cfg s \<Longrightarrow> \<forall>(env, ev) \<in> set evs. has_window env \<Longrightarrow> reachable cfg (run cfg evs s)"
proof (induction evs arbitrary: s)
  case Nil
  then show ?case by simp
next
  case (Cons x evs)
  obtain env ev where x: "x = (env, ev)" by (cases x)
  with Cons.prems have "reachable cfg (page_step cfg env ev s)"
    by (auto intro: reachable.step)
  with Cons.IH Cons.prems x show ?case by simp
qed

section \<open>The commit keeps the page's fields\<close>

lemma commit_page [simp]:
  "gender (commit cfg env s) = gender s"
  "age_group (commit cfg env s) = age_group s"
  "interest (commit cfg env s) = interest s"
  "reaction (commit cfg env s) = reaction s"
  "email_or_id (commit cfg env s) = email_or_id s"
  "is_submitting (commit cfg env s) = is_submitting s"
  "is_submitted (commit cfg env s) = is_submitted s"
  "has_started_survey (commit cfg env s) = has_started_survey s"
  "scroll_depth_tracked (commit cfg env s) = scroll_depth_tracked s"
  "is_interest_submitting (commit cfg env s) = is_interest_submitting s"
  "is_interest_submitted (commit cfg env s) = is_interest_submitted s"
  "survey_progress (commit cfg env s) = survey_progress s"
  "alerts (commit cfg env s) = alerts s"
  "survey_wait (commit cfg env s) = survey_wait s"
  "interest_wait (commit cfg env s) = interest_wait s"
  "revert_timers (commit cfg env s) = revert_timers s"
  "effect_deps (commit cfg env s) = effect_deps s"
  by (simp_all add: commit_def run_effect_def effect_deps_def)

lemma commit_listeners [simp]: "listeners (commit cfg env s) = Some (effect_deps s)"
  by (simp add: commit_def run_effect_def)

end
