(* ===== verification/Invariants.thy ===== *)
theory Invariants
  imports Page
begin

text \<open>
  What holds in every state a visit reaches. The invariants are stated per concern and
  each is kept by every event of \<open>page_step\<close>: the survey's answers are keys of its
  buttons, a pending submission holds exactly the current answers, the latch of
  \<open>start survey\<close> is set exactly when a gender is chosen, the progress ref is one of the
  five values the handlers write; the signup form has at most one pending hide-timer; the
  values captured by the window listeners never run ahead of the state; the sink received
  \<open>start survey\<close> and \<open>submit survey\<close> at most once each and \<open>view landing\<close> at most
  once per run of the effect; and every identity sent to the sink is the one stored in the
  browser. Their conjunction \<open>page_inv\<close> holds in every reachable state.
\<close>

abbreviation view_landing :: jstr where "view_landing \<equiv> js ''view landing''"
abbreviation start_survey :: jstr where "start_survey \<equiv> js ''start survey''"
abbreviation submit_survey :: jstr where "submit_survey \<equiv> js ''submit survey''"

lemmas handler_defs = click_option_def options_enabled_def select_gender_def select_age_group_def
  select_interest_def select_reaction_def on_submit_survey_def submit_survey_enabled_def
  survey_resume_def set_email_or_id_def on_submit_def signup_enabled_def interest_resume_def
  interest_revert_def handle_scroll_def handle_before_unload_def Let_def

text \<open>What the simplifier needs to run the page on a concrete visit.\<close>

lemmas run_simps = commit_def run_effect_def init_page_def init_amplitude_def amp_send_def
  api_key_def js_trim_def js_def js_ws_def track_event_def get_or_create_anonymous_user_id_def
  fresh_user_id_def dec_string.simps js_substring_def handler_defs item_tables effect_deps_def
  anon_storage_key_def all_answered_def survey_data_def label_tables label_of_def
  scroll_reached_def scroll_top_def js_div_def

section \<open>The invariants\<close>

definition answer_ok :: "(jstr \<times> jstr) list \<Rightarrow> jstr option \<Rightarrow> bool" where
  "answer_ok items v \<longleftrightarrow> (case v of None \<Rightarrow> True | Some k \<Rightarrow> k \<in> fst ` set items)"

definition survey_inv :: "page \<Rightarrow> bool" where
  "survey_inv s \<longleftrightarrow>
     answer_ok gender_items (gender s) \<and> answer_ok age_group_items (age_group s) \<and>
     answer_ok interest_items (interest s) \<and> answer_ok reaction_items (reaction s) \<and>
     survey_wait s = (if is_submitting s
                      then Some (the (gender s), the (age_group s), the (interest s), the (reaction s))
                      else None) \<and>
     (is_submitting s \<longrightarrow> all_answered s \<and> \<not> is_submitted s) \<and>
     (is_submitted s \<longrightarrow> all_answered s) \<and>
     (has_started_survey s \<longleftrightarrow> gender s \<noteq> None) \<and>
     survey_progress s \<in> {0, 20, 40, 60, 80} \<and>
     AlertSurveyIncomplete \<notin> set (alerts s)"

definition signup_inv :: "page \<Rightarrow> bool" where
  "signup_inv s \<longleftrightarrow>
     interest_wait s = is_interest_submitting s \<and>
     revert_timers s = (if is_interest_submitted s then 1 else 0) \<and>
     (is_interest_submitted s \<longrightarrow> \<not> is_interest_submitting s \<and> email_or_id s = [])"

definition deps_le :: "deps \<Rightarrow> deps \<Rightarrow> bool" where
  "deps_le d e \<longleftrightarrow> (fst d \<longrightarrow> fst e) \<and> (fst (snd d) \<longrightarrow> fst (snd e)) \<and> (snd (snd d) \<longrightarrow> snd (snd e))"

definition listener_inv :: "page \<Rightarrow> bool" where
  "listener_inv s \<longleftrightarrow> (case listeners s of None \<Rightarrow> False | Some d \<Rightarrow> deps_le d (effect_deps s))"

definition flag_count :: "deps \<Rightarrow> nat" where
  "flag_count d = of_bool (fst d) + of_bool (fst (snd d)) + of_bool (snd (snd d))"

definition view_inv :: "page \<Rightarrow> bool" where
  "view_inv s \<longleftrightarrow>
     (case listeners s of None \<Rightarrow> False
      | Some d \<Rightarrow> events_named view_landing (sink s) \<le> Suc (flag_count d))"

definition once_inv :: "page \<Rightarrow> bool" where
  "once_inv s \<longleftrightarrow>
     events_named start_survey (sink s) \<le> of_bool (has_started_survey s) \<and>
     events_named submit_survey (sink s) \<le> of_bool (is_submitted s)"

text \<open>The identity a call to the sink carries: an event's \<open>anonymous_user_id\<close>, or the
  argument of \<open>setUserId\<close>.\<close>

fun carried_id :: "amp_call \<Rightarrow> jstr option" where
  "carried_id (AmpTrack n p) = (case map_of p anon_prop of Some (JStr u) \<Rightarrow> Some u | _ \<Rightarrow> None)"
| "carried_id (AmpSetUserId u) = Some u"
| "carried_id (AmpInit k) = None"

definition ids_ok :: "storage \<Rightarrow> amp_call list \<Rightarrow> bool" where
  "ids_ok st cs \<longleftrightarrow> (\<forall>c\<in>set cs. \<forall>u. carried_id c = Some u \<longrightarrow> st anon_storage_key = Some u \<and> u \<noteq> [])"

definition page_inv :: "page \<Rightarrow> bool" where
  "page_inv s \<longleftrightarrow> survey_inv s \<and> signup_inv s \<and> listener_inv s \<and> view_inv s \<and> once_inv s \<and>
     ids_ok (storage s) (sink s)"

section \<open>Each invariant is kept by every event\<close>

lemma answer_ok_item: "i < length items \<Longrightarrow> answer_ok items (Some (fst (items ! i)))"
  by (auto simp: answer_ok_def)

lemma survey_inv_init: "survey_inv (commit cfg env (init_page st))"
  by (simp add: survey_inv_def init_page_def answer_ok_def)

lemma survey_inv_step: "survey_inv s \<Longrightarrow> survey_inv (page_step cfg env ev s)"
proof (cases ev)
  case (ClickGender i)
  assume "survey_inv s"
  then show ?thesis using ClickGender
    by (auto simp: survey_inv_def click_option_def select_gender_def Let_def options_enabled_def answer_ok_item)
next
  case (ClickAgeGroup i)
  assume "survey_inv s"
  then show ?thesis using ClickAgeGroup
    by (auto simp: survey_inv_def click_option_def select_age_group_def Let_def options_enabled_def answer_ok_item)
next
  case (ClickInterest i)
  assume "survey_inv s"
  then show ?thesis using ClickInterest
    by (auto simp: survey_inv_def click_option_def select_interest_def Let_def options_enabled_def answer_ok_item)
next
  case (ClickReaction i)
  assume "survey_inv s"
  then show ?thesis using ClickReaction
    by (auto simp: survey_inv_def click_option_def select_reaction_def Let_def options_enabled_def answer_ok_item)
next
  case ClickSubmitSurvey
  assume "survey_inv s"
  then show ?thesis using ClickSubmitSurvey
    by (auto simp: survey_inv_def on_submit_survey_def submit_survey_enabled_def all_answered_def)
next
  case SurveyTimer
  assume "survey_inv s"
  then show ?thesis using SurveyTimer
    by (auto simp: survey_inv_def survey_resume_def Let_def all_answered_def split: option.splits)
qed (auto simp: survey_inv_def all_answered_def set_email_or_id_def on_submit_def Let_def interest_resume_def interest_revert_def handle_scroll_def handle_before_unload_def split: option.splits)

lemma signup_inv_init: "signup_inv (commit cfg env (init_page st))"
  by (simp add: signup_inv_def init_page_def)

lemma signup_inv_step: "signup_inv s \<Longrightarrow> signup_inv (page_step cfg env ev s)"
  by (cases ev) (auto simp: signup_inv_def handler_defs split: option.splits)

lemma listener_inv_init: "listener_inv (commit cfg env (init_page st))"
  by (simp add: listener_inv_def deps_le_def)

lemma listener_inv_step: "listener_inv s \<Longrightarrow> listener_inv (page_step cfg env ev s)"
  by (cases ev) (auto simp: listener_inv_def deps_le_def effect_deps_def handler_defs split: option.splits)

lemma flag_count_le: "flag_count d \<le> 3"
  by (simp add: flag_count_def)

lemma flag_count_less: "deps_le d e \<Longrightarrow> d \<noteq> e \<Longrightarrow> flag_count d < flag_count e"
  by (cases d; cases e) (auto simp: deps_le_def flag_count_def)

lemma init_amplitude_events_other [simp]:
  "m \<noteq> view_landing \<Longrightarrow> events_named m (sink (init_amplitude cfg env s)) = events_named m (sink s)"
  unfolding init_amplitude_def amp_send_def Let_def
  by (auto split: sum.splits prod.splits)

lemma init_amplitude_events_view:
  "events_named view_landing (sink (init_amplitude cfg env s)) \<le> Suc (events_named view_landing (sink s))"
  unfolding init_amplitude_def amp_send_def Let_def
  by (auto split: sum.splits prod.splits intro: le_trans [OF track_event_events_le])

lemma init_amplitude_sends_view:
  assumes "api_key cfg \<noteq> []" and "calls_succeed env"
  shows "events_named view_landing (sink (init_amplitude cfg env s)) = Suc (events_named view_landing (sink s))"
proof -
  let ?s1 = "s\<lparr>sink := sink s @ [AmpInit (api_key cfg)]\<rparr>"
  obtain u st' where g: "get_or_create_anonymous_user_id env (storage ?s1) = Inr (u, st')"
    using assms(2) by (rule get_or_create_succeeds)
  let ?s3 = "?s1\<lparr>storage := st', sink := sink ?s1 @ [AmpSetUserId u]\<rparr>"
  have "init_amplitude cfg env s = track_event cfg env view_landing [] ?s3"
    using assms g by (simp add: init_amplitude_def amp_send_def calls_succeed_def Let_def)
  with track_event_sends [OF assms, of view_landing "[]" ?s3] show ?thesis by simp
qed

lemma commit_events_other [simp]:
  "m \<noteq> view_landing \<Longrightarrow> events_named m (sink (commit cfg env s)) = events_named m (sink s)"
  by (simp add: commit_def run_effect_def)

lemma commit_events_view:
  assumes "listeners s = Some d" and "deps_le d (effect_deps s)"
    and "events_named view_landing (sink s) \<le> Suc (flag_count d)"
  shows "events_named view_landing (sink (commit cfg env s)) \<le> Suc (flag_count (effect_deps s))"
proof (cases "d = effect_deps s")
  case True
  with assms show ?thesis by (simp add: commit_def)
next
  case False
  with assms(2) have "flag_count d < flag_count (effect_deps s)" by (rule flag_count_less)
  moreover have "events_named view_landing (sink (commit cfg env s)) \<le> Suc (events_named view_landing (sink s))"
    using False assms(1) init_amplitude_events_view by (simp add: commit_def run_effect_def)
  ultimately show ?thesis using assms(3) by linarith
qed

lemma deps_le_trans: "deps_le a b \<Longrightarrow> deps_le b c \<Longrightarrow> deps_le a c"
  by (auto simp: deps_le_def)

text \<open>A handler that neither sends \<open>view landing\<close> nor moves the listeners, then a commit.\<close>

lemma view_inv_commit_after:
  assumes "listener_inv s" and "view_inv s" and "listeners t = listeners s"
    and "deps_le (effect_deps s) (effect_deps t)"
    and "events_named view_landing (sink t) = events_named view_landing (sink s)"
  shows "view_inv (commit cfg env t)"
proof -
  obtain d where d: "listeners s = Some d" using assms(1) by (cases "listeners s") (auto simp: listener_inv_def)
  with assms(1,4) have "deps_le d (effect_deps t)" by (auto simp: listener_inv_def intro: deps_le_trans)
  moreover from d assms(3) have "listeners t = Some d" by simp
  moreover from d assms(2,5) have "events_named view_landing (sink t) \<le> Suc (flag_count d)"
    by (simp add: view_inv_def)
  ultimately show ?thesis by (simp add: view_inv_def commit_events_view)
qed

lemma view_inv_init: "view_inv (commit cfg env (init_page st))"
proof -
  have "events_named view_landing (sink (commit cfg env (init_page st))) \<le> Suc 0"
    using init_amplitude_events_view [of cfg env "init_page st"]
    by (simp add: commit_def run_effect_def init_page_def)
  then show ?thesis by (simp add: view_inv_def init_page_def effect_deps_def flag_count_def)
qed

lemma view_inv_step:
  assumes "listener_inv s" and "view_inv s"
  shows "view_inv (page_step cfg env ev s)"
proof -
  have after: "view_inv (commit cfg env t)"
    if "listeners t = listeners s" and "deps_le (effect_deps s) (effect_deps t)"
      and "events_named view_landing (sink t) = events_named view_landing (sink s)" for t
    using view_inv_commit_after [OF assms that] .
  have keep: "view_inv t"
    if "listeners t = listeners s"
      and "events_named view_landing (sink t) = events_named view_landing (sink s)" for t
    using assms(2) that by (cases "listeners s") (simp_all add: view_inv_def)
  show ?thesis
    by (cases ev) (auto simp: handler_defs deps_le_def effect_deps_def intro: after keep
                        split: option.splits)
qed

lemma once_inv_init: "once_inv (commit cfg env (init_page st))"
  by (simp add: once_inv_def init_page_def)

lemma select_gender_start:
  "events_named start_survey (sink (select_gender cfg env it s))
     \<le> events_named start_survey (sink s) + of_bool (\<not> has_started_survey s)"
  using track_event_events_le [of start_survey cfg env "[]" "s\<lparr>gender := Some (fst it)\<rparr>"]
  by (simp add: select_gender_def Let_def)

lemma survey_resume_submit:
  "events_named submit_survey (sink (survey_resume cfg env a s)) \<le> Suc (events_named submit_survey (sink s))"
  using track_event_events_le [of submit_survey cfg env "survey_data a" s]
  by (simp add: survey_resume_def Let_def)

lemma once_inv_step:
  assumes "survey_inv s" and "once_inv s"
  shows "once_inv (page_step cfg env ev s)"
proof (cases ev)
  case (ClickGender i)
  have "events_named start_survey (sink (commit cfg env (select_gender cfg env (gender_items ! i) s)))
          \<le> events_named start_survey (sink s) + of_bool (\<not> has_started_survey s)"
    using select_gender_start by simp
  with assms ClickGender show ?thesis
    by (auto simp: once_inv_def click_option_def select_gender_def Let_def)
next
  case SurveyTimer
  show ?thesis
  proof (cases "survey_wait s")
    case (Some a)
    with assms(1) have "\<not> is_submitted s" by (auto simp: survey_inv_def split: if_splits)
    with assms(2) Some SurveyTimer survey_resume_submit [of cfg env a s] show ?thesis
      by (simp add: once_inv_def survey_resume_def Let_def)
  qed (use assms SurveyTimer in simp)
qed (use assms in \<open>auto simp: once_inv_def handler_defs split: option.splits\<close>)

lemma ids_ok_simps [simp]:
  "ids_ok st []"
  "ids_ok st (cs @ ds) \<longleftrightarrow> ids_ok st cs \<and> ids_ok st ds"
  "ids_ok st (c # ds) \<longleftrightarrow> (\<forall>u. carried_id c = Some u \<longrightarrow> st anon_storage_key = Some u \<and> u \<noteq> []) \<and> ids_ok st ds"
  by (auto simp: ids_ok_def)

lemma get_or_create_keeps:
  assumes "has_window env" and "get_or_create_anonymous_user_id env st = Inr (u, st')"
    and "st anon_storage_key = Some v" and "v \<noteq> []"
  shows "u = v \<and> st' = st"
  using assms by (simp add: get_or_create_anonymous_user_id_def split: if_splits)

lemma ids_ok_resolved:
  assumes "has_window env" and "get_or_create_anonymous_user_id env st = Inr (u, st')"
    and "ids_ok st cs"
  shows "ids_ok st' cs \<and> st' anon_storage_key = Some u \<and> u \<noteq> []"
proof -
  from get_or_create_result [OF assms(1,2)]
  have u: "u \<noteq> []" "st' anon_storage_key = Some u" by auto
  have "ids_ok st' cs"
    unfolding ids_ok_def
  proof (intro ballI allI impI)
    fix c w assume "c \<in> set cs" "carried_id c = Some w"
    with assms(3) have w: "st anon_storage_key = Some w" "w \<noteq> []" by (auto simp: ids_ok_def)
    with get_or_create_keeps [OF assms(1,2)] have "st' = st" by blast
    with w show "st' anon_storage_key = Some w \<and> w \<noteq> []" by simp
  qed
  with u show ?thesis by simp
qed

lemma ids_ok_track_event:
  assumes w: "has_window env" and ok: "ids_ok (storage s) (sink s)"
  shows "ids_ok (storage (track_event cfg env n ps s)) (sink (track_event cfg env n ps s))"
proof (cases rule: track_event_cases [of cfg env n ps s])
  case 1
  with ok show ?thesis by simp
next
  case (2 u st)
  with ids_ok_resolved [OF w _ ok] show ?thesis by simp
next
  case (3 u st)
  with ids_ok_resolved [OF w _ ok] show ?thesis by (auto simp: ids_ok_def)
qed

lemma ids_ok_init_amplitude:
  assumes w: "has_window env" and ok: "ids_ok (storage s) (sink s)"
  shows "ids_ok (storage (init_amplitude cfg env s)) (sink (init_amplitude cfg env s))"
proof -
  have track: "ids_ok (storage (track_event cfg env n ps t)) (sink (track_event cfg env n ps t))"
    if "ids_ok (storage t) (sink t)" for t :: page and n ps
    using w that by (rule ids_ok_track_event)
  show ?thesis
    unfolding init_amplitude_def amp_send_def Let_def
    using ok by (auto split: sum.splits prod.splits intro!: track dest: ids_ok_resolved [OF w])
qed

lemma ids_ok_step:
  assumes "has_window env" and "ids_ok (storage s) (sink s)"
  shows "ids_ok (storage (page_step cfg env ev s)) (sink (page_step cfg env ev s))"
  using assms
  by (cases ev) (auto simp: handler_defs commit_def run_effect_def split: option.splits
                      intro!: ids_ok_track_event ids_ok_init_amplitude)

section \<open>Consequences for single steps\<close>

text \<open>Without an API key no handler touches storage or the sink.\<close>

lemma page_step_no_key:
  "api_key cfg = [] \<Longrightarrow>
     storage (page_step cfg env ev s) = storage s \<and> sink (page_step cfg env ev s) = sink s"
  by (cases ev) (auto simp: handler_defs commit_def run_effect_def init_amplitude_def
                            track_event_no_key split: option.splits)

text \<open>Once the listeners captured \<open>scrollDepthTracked = true\<close>, no event sends
  \<open>scroll depth\<close> and the listeners keep that value.\<close>

lemma page_step_latched:
  assumes "listener_inv s" and "listeners s = Some d" and "fst d"
  shows "events_named (js ''scroll depth'') (sink (page_step cfg env ev s)) =
           events_named (js ''scroll depth'') (sink s) \<and>
         listener_inv (page_step cfg env ev s) \<and>
         listeners (page_step cfg env ev s) \<noteq> None \<and> fst (the (listeners (page_step cfg env ev s)))"
proof -
  from assms have tracked: "scroll_depth_tracked s"
    by (auto simp: listener_inv_def deps_le_def effect_deps_def)
  show ?thesis
  proof (intro conjI)
    show "listener_inv (page_step cfg env ev s)"
      using assms(1) by (rule listener_inv_step)
    show "events_named (js ''scroll depth'') (sink (page_step cfg env ev s)) =
            events_named (js ''scroll depth'') (sink s)"
      using assms tracked
      by (cases ev) (auto simp: handler_defs commit_def run_effect_def split: option.splits)
    show "listeners (page_step cfg env ev s) \<noteq> None"
      using listener_inv_step [OF assms(1), of cfg env ev]
      by (auto simp: listener_inv_def split: option.splits)
    show "fst (the (listeners (page_step cfg env ev s)))"
      using assms tracked
      by (cases ev) (auto simp: handler_defs commit_def run_effect_def effect_deps_def
                          split: option.splits)
  qed
qed

section \<open>Every reachable state\<close>

lemma page_inv_init:
  assumes "has_window env"
  shows "page_inv (commit cfg env (init_page st))"
proof -
  have "ids_ok (storage (init_page st)) (sink (init_page st))"
    by (simp add: init_page_def)
  with assms have "ids_ok (storage (page_step cfg env Commit (init_page st)))
                          (sink (page_step cfg env Commit (init_page st)))"
    by (rule ids_ok_step)
  then show ?thesis
    by (simp add: page_inv_def survey_inv_init signup_inv_init listener_inv_init view_inv_init
                  once_inv_init)
qed

lemma page_inv_step: "page_inv s \<Longrightarrow> has_window env \<Longrightarrow> page_inv (page_step cfg env ev s)"
  by (simp add: page_inv_def survey_inv_step signup_inv_step listener_inv_step view_inv_step
                once_inv_step ids_ok_step)

lemma reachable_page_inv: "reachable cfg s \<Longrightarrow> page_inv s"
  by (induction rule: reachable.induct) (simp_all add: page_inv_init page_inv_step)


lemmas reachable_invs = reachable_page_inv [unfolded page_inv_def]

end
