(* ===== verification/View.thy ===== *)
theory View
  imports Invariants
begin

text \<open>
  What \<open>Home\<close> in \<open>src/src/app/page.tsx\<close> renders from its state (lines 494 to 790): the
  survey section, which is a thank-you card once the survey is submitted and otherwise the
  four questions with one button per item and the submit button; and the signup section,
  which is the success card while the message is shown and otherwise the form. A button
  is highlighted when its key is the stored answer (lines 557 to 561) and disabled while
  the survey is being submitted; the submit button and the signup button show a spinner
  and a busy text while their handler waits. Static text and animation props are left
  out. The lemmas read the view back: which button a question highlights and the
  \<open>onClick\<close> a click on it runs, used by the properties of the rendered page.
\<close>

section \<open>The rendered view\<close>

text \<open>One generated option button: its text, its highlight and its \<open>disabled\<close> attribute.\<close>

record button_view =
  btn_label :: jstr
  btn_selected :: bool
  btn_disabled :: bool

text \<open>The survey section (lines 496 to 722): the card, or the form with its four button
  groups, the submit button's \<open>disabled\<close> attribute and whether it shows the busy text.\<close>

datatype survey_view =
    SurveyThanks
  | SurveyForm "button_view list" "button_view list" "button_view list" "button_view list" bool bool

text \<open>The signup section (lines 725 to 780): the card, or the form with the input's
  value, the \<open>disabled\<close> attribute shared by the input and the button, and whether the
  button shows the busy text.\<close>

datatype signup_view = SignupDone | SignupForm jstr bool bool

text \<open>\<open>items.map(item => <button ...>)\<close> (lines 535 to 564 for the gender question,
  the three others alike): the highlight compares the stored answer with the item's key.\<close>

definition option_buttons :: "(jstr \<times> jstr) list \<Rightarrow> jstr option \<Rightarrow> bool \<Rightarrow> button_view list" where
  "option_buttons items answer busy =
     map (\<lambda>(k, l). \<lparr>btn_label = l, btn_selected = (answer = Some k), btn_disabled = busy\<rparr>) items"

definition render_survey :: "page \<Rightarrow> survey_view" where
  "render_survey s =
     (if is_submitted s then SurveyThanks
      else SurveyForm
             (option_buttons gender_items (gender s) (is_submitting s))
             (option_buttons age_group_items (age_group s) (is_submitting s))
             (option_buttons interest_items (interest s) (is_submitting s))
             (option_buttons reaction_items (reaction s) (is_submitting s))
             (is_submitting s \<or> \<not> js_truthy (gender s) \<or> \<not> js_truthy (age_group s) \<or>
              \<not> js_truthy (interest s) \<or> \<not> js_truthy (reaction s))
             (is_submitting s))"

definition render_signup :: "page \<Rightarrow> signup_view" where
  "render_signup s =
     (if is_interest_submitted s then SignupDone
      else SignupForm (email_or_id s) (is_interest_submitting s) (is_interest_submitting s))"

section \<open>Reading the view\<close>

text \<open>The four questions, in the order of the page.\<close>

datatype question = QGenderQ | QAgeGroupQ | QInterestQ | QReactionQ

primrec question_buttons :: "question \<Rightarrow> survey_view \<Rightarrow> button_view list" where
  "question_buttons QGenderQ v = (case v of SurveyForm g a i r d b \<Rightarrow> g | SurveyThanks \<Rightarrow> [])"
| "question_buttons QAgeGroupQ v = (case v of SurveyForm g a i r d b \<Rightarrow> a | SurveyThanks \<Rightarrow> [])"
| "question_buttons QInterestQ v = (case v of SurveyForm g a i r d b \<Rightarrow> i | SurveyThanks \<Rightarrow> [])"
| "question_buttons QReactionQ v = (case v of SurveyForm g a i r d b \<Rightarrow> r | SurveyThanks \<Rightarrow> [])"

text \<open>Whether the submit button and the signup button show their busy text.\<close>

fun survey_busy :: "survey_view \<Rightarrow> bool" where
  "survey_busy SurveyThanks \<longleftrightarrow> False"
| "survey_busy (SurveyForm g a i r d b) \<longleftrightarrow> b"

fun signup_busy :: "signup_view \<Rightarrow> bool" where
  "signup_busy SignupDone \<longleftrightarrow> False"
| "signup_busy (SignupForm v d b) \<longleftrightarrow> b"

text \<open>The item list and the stored answer of each question.\<close>

primrec question_items :: "question \<Rightarrow> (jstr \<times> jstr) list" where
  "question_items QGenderQ = gender_items"
| "question_items QAgeGroupQ = age_group_items"
| "question_items QInterestQ = interest_items"
| "question_items QReactionQ = reaction_items"

primrec question_answer :: "question \<Rightarrow> page \<Rightarrow> jstr option" where
  "question_answer QGenderQ s = gender s"
| "question_answer QAgeGroupQ s = age_group s"
| "question_answer QInterestQ s = interest s"
| "question_answer QReactionQ s = reaction s"

text \<open>The click on the \<open>i\<close>-th button of a question, and the \<open>onClick\<close> it runs.\<close>

primrec question_click :: "question \<Rightarrow> nat \<Rightarrow> ui_event" where
  "question_click QGenderQ i = ClickGender i"
| "question_click QAgeGroupQ i = ClickAgeGroup i"
| "question_click QInterestQ i = ClickInterest i"
| "question_click QReactionQ i = ClickReaction i"

primrec question_handler :: "question \<Rightarrow> config \<Rightarrow> env \<Rightarrow> jstr \<times> jstr \<Rightarrow> page \<Rightarrow> page" where
  "question_handler QGenderQ cfg env = select_gender cfg env"
| "question_handler QAgeGroupQ cfg env = select_age_group cfg env"
| "question_handler QInterestQ cfg env = select_interest cfg env"
| "question_handler QReactionQ cfg env = select_reaction cfg env"

section \<open>Lemmas on the view\<close>

lemma option_buttons_length [simp]: "length (option_buttons items a b) = length items"
  by (simp add: option_buttons_def)

lemma option_buttons_nth [simp]:
  "i < length items \<Longrightarrow> btn_disabled (option_buttons items a b ! i) = b"
  by (simp add: option_buttons_def split: prod.split)

lemma option_buttons_unselected:
  "k \<notin> fst ` set items \<Longrightarrow> filter btn_selected (option_buttons items (Some k) b) = []"
  by (force simp: option_buttons_def filter_empty_conv)

lemma option_buttons_selected:
  assumes "distinct (map fst items)"
  shows "map btn_label (filter btn_selected (option_buttons items a b)) =
           (case a of None \<Rightarrow> [] | Some k \<Rightarrow> (case map_of items k of None \<Rightarrow> [] | Some l \<Rightarrow> [l]))"
  using assms
proof (induction items)
  case Nil
  then show ?case by (simp add: option_buttons_def split: option.split)
next
  case (Cons x items)
  obtain k l where x: "x = (k, l)" by (cases x)
  show ?case
  proof (cases "a = Some k")
    case True
    from Cons.prems x have "k \<notin> fst ` set items" by simp
    then have "filter btn_selected (option_buttons items (Some k) b) = []"
      by (rule option_buttons_unselected)
    with True x show ?thesis by (simp add: option_buttons_def)
  next
    case False
    with Cons x show ?thesis by (cases a) (auto simp: option_buttons_def)
  qed
qed

lemma question_items_distinct: "distinct (map fst (question_items q))"
  by (cases q) (simp_all add: item_tables js_def)

lemma question_items_nonempty: "question_items q \<noteq> []"
  by (cases q) (simp_all add: item_tables)

lemma question_buttons_render:
  "question_buttons q (render_survey s) =
     (if is_submitted s then []
      else option_buttons (question_items q) (question_answer q s) (is_submitting s))"
  by (cases q) (simp_all add: render_survey_def)

lemma page_step_question_click:
  "page_step cfg env (question_click q i) s =
     click_option cfg env (question_items q) i (question_handler q cfg env) s"
  by (cases q) simp_all

lemma answer_ok_question:
  "survey_inv s \<Longrightarrow> answer_ok (question_items q) (question_answer q s)"
  by (cases q) (simp_all add: survey_inv_def)

end
