(* ===== verification/Phases.thy ===== *)
theory Phases
  imports View
begin

text \<open>
  The two forms of the page as the abstract state machines the design describes, and the
  abstraction of the page state onto them. The survey moves from answering (each question
  unset or set to one of its keys) to submitting a complete set of answers and then to
  submitted, with a failed submission returning to answering; the signup form moves from
  editing its input to sending a non-blank value, to showing the success message, and back
  to an empty input. The refinement lemmas show that every event of \<open>page_step\<close> either
  leaves the abstract state alone or takes one abstract step.
\<close>

section \<open>The abstract survey\<close>

type_synonym slots = "jstr option \<times> jstr option \<times> jstr option \<times> jstr option"

datatype survey_state = SAnswering slots | SSubmitting answers | SSubmitted answers

primrec set_slot :: "question \<Rightarrow> jstr \<Rightarrow> slots \<Rightarrow> slots" where
  "set_slot QGenderQ k a = (case a of (g, x, i, r) \<Rightarrow> (Some k, x, i, r))"
| "set_slot QAgeGroupQ k a = (case a of (g, x, i, r) \<Rightarrow> (g, Some k, i, r))"
| "set_slot QInterestQ k a = (case a of (g, x, i, r) \<Rightarrow> (g, x, Some k, r))"
| "set_slot QReactionQ k a = (case a of (g, x, i, r) \<Rightarrow> (g, x, i, Some k))"

fun slots_answers :: "slots \<Rightarrow> answers option" where
  "slots_answers (Some g, Some x, Some i, Some r) = Some (g, x, i, r)"
| "slots_answers _ = None"

text \<open>Selecting a key of a question's items sets that slot only; a complete set of answers
  can be submitted; a submission completes, or fails and returns its answers to the form.\<close>

inductive survey_spec :: "survey_state \<Rightarrow> survey_state \<Rightarrow> bool" where
  select: "k \<in> fst ` set (question_items q) \<Longrightarrow> survey_spec (SAnswering a) (SAnswering (set_slot q k a))"
| submit: "slots_answers a = Some b \<Longrightarrow> survey_spec (SAnswering a) (SSubmitting b)"
| complete: "survey_spec (SSubmitting b) (SSubmitted b)"
| fail: "survey_spec (SSubmitting (g, x, i, r)) (SAnswering (Some g, Some x, Some i, Some r))"

definition page_slots :: "page \<Rightarrow> slots" where
  "page_slots s = (gender s, age_group s, interest s, reaction s)"

definition survey_abs :: "page \<Rightarrow> survey_state" where
  "survey_abs s =
     (if is_submitted s then SSubmitted (the (slots_answers (page_slots s)))
      else if is_submitting s then SSubmitting (the (slots_answers (page_slots s)))
      else SAnswering (page_slots s))"

section \<open>The abstract signup form\<close>

datatype signup_state = SEditing jstr | SSending jstr | SShown

text \<open>The input is edited freely; a value that is not blank after trimming is sent; the
  success message is shown and then gives way to an empty input.\<close>

inductive signup_spec :: "signup_state \<Rightarrow> signup_state \<Rightarrow> bool" where
  edit: "signup_spec (SEditing v) (SEditing w)"
| send: "js_trim v \<noteq> [] \<Longrightarrow> signup_spec (SEditing v) (SSending v)"
| shown: "signup_spec (SSending v) (SShown)"
| revert: "signup_spec SShown (SEditing [])"

definition signup_abs :: "page \<Rightarrow> signup_state" where
  "signup_abs s =
     (if is_interest_submitted s then SShown
      else if is_interest_submitting s then SSending (email_or_id s)
      else SEditing (email_or_id s))"

section \<open>Each event refines a step of the survey\<close>

lemma question_handler_fields:
  "page_slots (question_handler q cfg env it s) = set_slot q (fst it) (page_slots s) \<and>
   is_submitted (question_handler q cfg env it s) = is_submitted s \<and>
   is_submitting (question_handler q cfg env it s) = is_submitting s"
  by (cases q) (simp_all add: select_gender_def select_age_group_def select_interest_def
                              select_reaction_def page_slots_def Let_def)

lemma commit_slots [simp]: "page_slots (commit cfg env s) = page_slots s"
  by (simp add: page_slots_def)

lemma slots_answers_all:
  "all_answered s \<Longrightarrow>
     slots_answers (page_slots s) = Some (the (gender s), the (age_group s), the (interest s), the (reaction s))"
  by (auto simp: all_answered_def page_slots_def js_truthy_def split: option.splits)

lemma survey_abs_click:
  "survey_abs (page_step cfg env (question_click q i) s) = survey_abs s \<or>
   survey_spec (survey_abs s) (survey_abs (page_step cfg env (question_click q i) s))"
proof (cases "options_enabled s \<and> i < length (question_items q)")
  case True
  then have "fst (question_items q ! i) \<in> fst ` set (question_items q)" by simp
  then have "survey_spec (SAnswering (page_slots s))
               (SAnswering (set_slot q (fst (question_items q ! i)) (page_slots s)))"
    by (rule survey_spec.select)
  with True show ?thesis
    by (simp add: page_step_question_click click_option_def survey_abs_def question_handler_fields
                  options_enabled_def)
qed (auto simp: page_step_question_click click_option_def)

lemma survey_abs_submit:
  "survey_abs (page_step cfg env ClickSubmitSurvey s) = survey_abs s \<or>
   survey_spec (survey_abs s) (survey_abs (page_step cfg env ClickSubmitSurvey s))"
proof (cases "submit_survey_enabled s")
  case True
  then have "slots_answers (page_slots s) =
               Some (the (gender s), the (age_group s), the (interest s), the (reaction s))"
    by (simp add: submit_survey_enabled_def slots_answers_all)
  then have "survey_spec (SAnswering (page_slots s))
               (SSubmitting (the (gender s), the (age_group s), the (interest s), the (reaction s)))"
    by (rule survey_spec.submit)
  with True show ?thesis
    by (auto simp: survey_abs_def on_submit_survey_def submit_survey_enabled_def all_answered_def
                   page_slots_def js_truthy_def split: option.splits)
qed simp

lemma survey_abs_timer:
  assumes "survey_inv s"
  shows "survey_abs (page_step cfg env SurveyTimer s) = survey_abs s \<or>
         survey_spec (survey_abs s) (survey_abs (page_step cfg env SurveyTimer s))"
proof (cases "survey_wait s")
  case (Some a)
  with assms have "is_submitting s" "\<not> is_submitted s" "all_answered s"
    by (auto simp: survey_inv_def split: if_splits)
  then show ?thesis
    using Some assms survey_spec.complete
    by (auto simp: survey_abs_def survey_resume_def Let_def page_slots_def)
qed simp

lemma survey_abs_step:
  assumes "survey_inv s"
  shows "survey_abs (page_step cfg env ev s) = survey_abs s \<or>
         survey_spec (survey_abs s) (survey_abs (page_step cfg env ev s))"
proof (cases ev)
  case (ClickGender i)
  then show ?thesis using survey_abs_click [of cfg env QGenderQ i s] by simp
next
  case (ClickAgeGroup i)
  then show ?thesis using survey_abs_click [of cfg env QAgeGroupQ i s] by simp
next
  case (ClickInterest i)
  then show ?thesis using survey_abs_click [of cfg env QInterestQ i s] by simp
next
  case (ClickReaction i)
  then show ?thesis using survey_abs_click [of cfg env QReactionQ i s] by simp
next
  case ClickSubmitSurvey
  then show ?thesis using survey_abs_submit [of cfg env s] by simp
next
  case SurveyTimer
  then show ?thesis using survey_abs_timer [OF assms, of cfg env] by simp
qed (auto simp: survey_abs_def page_slots_def handler_defs split: option.splits)

section \<open>Each event refines a step of the signup form\<close>

lemma signup_abs_step:
  assumes "signup_inv s"
  shows "signup_abs (page_step cfg env ev s) = signup_abs s \<or>
         signup_spec (signup_abs s) (signup_abs (page_step cfg env ev s))"
proof (cases ev)
  case (InputChange v)
  then show ?thesis
    by (auto simp: signup_abs_def signup_enabled_def set_email_or_id_def intro: signup_spec.edit)
next
  case SubmitInterest
  show ?thesis
  proof (cases "signup_enabled s \<and> js_trim (email_or_id s) \<noteq> []")
    case True
    then have "signup_spec (SEditing (email_or_id s)) (SSending (email_or_id s))"
      by (simp add: signup_spec.send)
    with True SubmitInterest show ?thesis
      by (simp add: signup_abs_def signup_enabled_def on_submit_def Let_def)
  next
    case False
    with SubmitInterest show ?thesis
      by (auto simp: signup_abs_def signup_enabled_def on_submit_def)
  qed
next
  case InterestTimer
  with assms show ?thesis
    by (auto simp: signup_abs_def signup_inv_def interest_resume_def intro: signup_spec.shown)
next
  case RevertTimer
  with assms show ?thesis
    by (auto simp: signup_abs_def signup_inv_def interest_revert_def intro: signup_spec.revert)
qed (auto simp: signup_abs_def handler_defs split: option.splits)

end
