(* ===== verification/Outline.thy ===== *)
theory Outline
  imports View
begin

text \<open>
  The frame of \<open>Home\<close> in \<open>src/src/app/page.tsx\<close> around the two forms: the fixed header
  with its navigation links (lines 237 to 270), the sections of the page with their
  \<open>id\<close>s (lines 276, 463, 495 and 724), the footer with its link (lines 799 to 821), and
  the texts of the two submit buttons (lines 705 to 715 and 772 to 778). Static text and
  images are left out. The lemmas show that every in-page link leads to a section the
  page renders and that every external link opens in a new tab and is reported.
\<close>

section \<open>Links and sections\<close>

text \<open>An anchor: its \<open>href\<close>, whether it opens in a new tab with
  \<open>rel="noopener noreferrer"\<close>, its \<open>aria-label\<close>, and the event its \<open>onClick\<close> raises.\<close>

record link =
  href :: jstr
  new_tab :: bool
  aria_label :: "jstr option"
  on_click :: "ui_event option"

definition instagram_url :: jstr where
  "instagram_url = js ''https://www.instagram.com/blind_date_explained/''"

text \<open>The header (lines 237 to 270): the logo to the top, \<open>#about\<close>, \<open>#signup\<close> and the
  Instagram link, whose \<open>onClick\<close> calls \<open>trackEvent("click instagram")\<close>.\<close>

definition header_links :: "link list" where
  "header_links =
     [\<lparr>href = js ''#'', new_tab = False, aria_label = None, on_click = None\<rparr>,
      \<lparr>href = js ''#about'', new_tab = False, aria_label = None, on_click = None\<rparr>,
      \<lparr>href = js ''#signup'', new_tab = False, aria_label = None, on_click = None\<rparr>,
      \<lparr>href = instagram_url, new_tab = True, aria_label = Some (js ''Instagram''),
       on_click = Some ClickInstagram\<rparr>]"

text \<open>The footer (lines 799 to 821): the same Instagram link.\<close>

definition footer_links :: "link list" where
  "footer_links =
     [\<lparr>href = instagram_url, new_tab = True, aria_label = Some (js ''Instagram''),
       on_click = Some ClickInstagram\<rparr>]"

text \<open>The sections inside the container, in order, with their \<open>id\<close>s: the hero
  (\<open>about\<close>, line 277), the concept (line 463), the survey (line 495) and the signup
  (\<open>signup\<close>, line 724).\<close>

definition section_ids :: "jstr option list" where
  "section_ids = [Some (js ''about''), None, None, Some (js ''signup'')]"

text \<open>Where an \<open>href\<close> of the page leads: \<open>#\<close> to the top, \<open>#id\<close> to the section with
  that \<open>id\<close> if there is one, anything else out of the page.\<close>

datatype target = Top | SectionAt nat | External jstr | Broken

definition link_target :: "jstr \<Rightarrow> target" where
  "link_target h =
     (if h = js ''#'' then Top
      else if take 1 h = js ''#'' then
        (if Some (drop 1 h) \<in> set section_ids
         then SectionAt (length (takeWhile (\<lambda>i. i \<noteq> Some (drop 1 h)) section_ids)) else Broken)
      else External h)"

section \<open>The texts of the submit buttons\<close>

text \<open>The survey's submit button (lines 705 to 715): the busy text with a spinner while
  submitting, the call to action otherwise.\<close>

definition submit_text :: "bool \<Rightarrow> jstr" where
  "submit_text busy =
     (if busy then [0xC81C, 0xCD9C, 32, 0xC911, 46, 46, 46]
      else [0xC124, 0xBB38, 32, 0xC81C, 0xCD9C, 0xD558, 0xAE30])"

text \<open>The signup button (lines 772 to 778).\<close>

definition signup_text :: "bool \<Rightarrow> jstr" where
  "signup_text busy =
     (if busy then [0xCC98, 0xB9AC, 32, 0xC911, 46, 46, 46] else [0xC54C, 0xB9BC, 0xBC1B, 0xAE30])"

section \<open>Lemmas on the frame\<close>

lemma page_links_targets:
  "map (link_target \<circ> href) (header_links @ footer_links) =
     [Top, SectionAt 0, SectionAt 3, External instagram_url, External instagram_url]"
  by (simp add: header_links_def footer_links_def link_target_def section_ids_def
                instagram_url_def js_def)

text \<open>No link of the page is broken, and the in-page ones lead to the hero and the signup
  section, which are rendered in every state (only their contents depend on it).\<close>

lemma no_broken_links: "Broken \<notin> set (map (link_target \<circ> href) (header_links @ footer_links))"
  by (simp only: page_links_targets) simp

text \<open>Every link that leaves the page opens in a new tab and is reported as a click on
  Instagram.\<close>

lemma external_links_tracked:
  "l \<in> set (header_links @ footer_links) \<Longrightarrow> link_target (href l) = External u \<Longrightarrow>
     new_tab l \<and> on_click l = Some ClickInstagram"
  using page_links_targets
  by (auto simp: header_links_def footer_links_def)

text \<open>The button texts tell the visitor whether the handler is waiting.\<close>

lemma button_texts_distinct:
  "submit_text True \<noteq> submit_text False" "signup_text True \<noteq> signup_text False"
  by (simp_all add: submit_text_def signup_text_def)

end
