(* ===== verification/Analytics.thy ===== *)
theory Analytics
  imports Prelude
begin

text \<open>
  The event helper of \<open>src/src/lib/utils/analytics.ts\<close>: \<open>trackEvent\<close> forwards an
  action and its parameters to Google Analytics (\<open>window.gtag\<close>) and to Mixpanel
  (\<open>window.mixpanel\<close>) when the page provides them, and logs them in development; five
  wrappers fill in the parameters for the page view, the Instagram click, the signup, an
  option selection and the survey submission. The page of \<open>page.tsx\<close> imports none of
  it, so the theory stands alone: the helper is modelled as the list of calls it makes.
\<close>

section \<open>Types\<close>

text \<open>\<open>EventCategory\<close> and \<open>EventAction\<close> (lines 20 to 32) and the strings they stand for.\<close>

datatype event_category = CatPageView | CatNavigation | CatForm | CatSurvey | CatSocial

datatype event_action =
  LandingPageView | InstagramClick | NotificationSignup | SurveySubmitAction | SurveyOptionSelect

primrec category_name :: "event_category \<Rightarrow> jstr" where
  "category_name CatPageView = js ''page_view''"
| "category_name CatNavigation = js ''navigation''"
| "category_name CatForm = js ''form''"
| "category_name CatSurvey = js ''survey''"
| "category_name CatSocial = js ''social''"

primrec action_name :: "event_action \<Rightarrow> jstr" where
  "action_name LandingPageView = js ''landing_page_view''"
| "action_name InstagramClick = js ''instagram_click''"
| "action_name NotificationSignup = js ''notification_signup''"
| "action_name SurveySubmitAction = js ''survey_submit''"
| "action_name SurveyOptionSelect = js ''survey_option_select''"

text \<open>
  What the helper reads of its environment (lines 7 to 18, 48, 53, 63 and 79): whether
  \<open>window\<close> exists, whether it carries \<open>gtag\<close> and \<open>mixpanel\<close>, whether the build is a
  development build, and \<open>window.location.pathname\<close>.
\<close>

record analytics_env =
  a_window :: bool
  has_gtag :: bool
  has_mixpanel :: bool
  dev_mode :: bool
  pathname :: jstr

text \<open>The calls the helper makes: the console, \<open>gtag\<close> and \<open>mixpanel.track\<close>.\<close>

datatype analytics_call =
    ConsoleLog jstr "props option"
  | Gtag jstr jstr props
  | MixpanelTrack jstr "props option"

section \<open>\<open>trackEvent\<close>\<close>

text \<open>JavaScript truthiness of a property value, and \<open>a || b\<close> on values.\<close>

fun jsval_truthy :: "jsval \<Rightarrow> bool" where
  "jsval_truthy (JStr s) \<longleftrightarrow> s \<noteq> []"
| "jsval_truthy (JNum n) \<longleftrightarrow> n \<noteq> 0"
| "jsval_truthy (JBool b) \<longleftrightarrow> b"
| "jsval_truthy JUndef \<longleftrightarrow> False"

definition jsval_or :: "jsval \<Rightarrow> jsval \<Rightarrow> jsval" where
  "jsval_or a b = (if jsval_truthy a then a else b)"

text \<open>\<open>params?.k\<close>: undefined when \<open>params\<close> is, or when it lacks the key.\<close>

definition prop_get :: "props option \<Rightarrow> jstr \<Rightarrow> jsval" where
  "prop_get p k = (case p of None \<Rightarrow> JUndef | Some ps \<Rightarrow> (case map_of (rev ps) k of None \<Rightarrow> JUndef | Some v \<Rightarrow> v))"

text \<open>
  The object passed to \<open>gtag\<close> (lines 54 to 59): three keys, then the spread of the
  parameters, whose keys overwrite them in place.
\<close>

definition gtag_params :: "props option \<Rightarrow> props" where
  "gtag_params p =
     js_spread
       [(js ''event_category'', jsval_or (prop_get p (js ''category'')) (JStr (js ''engagement''))),
        (js ''event_label'', prop_get p (js ''label'')),
        (js ''value'', prop_get p (js ''value''))]
       (case p of None \<Rightarrow> [] | Some ps \<Rightarrow> ps)"

text \<open>\<open>trackEvent\<close> (lines 46 to 73).\<close>

definition util_track_event :: "analytics_env \<Rightarrow> event_action \<Rightarrow> props option \<Rightarrow> analytics_call list" where
  "util_track_event env a p =
     (if dev_mode env then [ConsoleLog (action_name a) p] else []) @
     (if a_window env \<and> has_gtag env then [Gtag (js ''event'') (action_name a) (gtag_params p)] else []) @
     (if a_window env \<and> has_mixpanel env then [MixpanelTrack (action_name a) p] else [])"

section \<open>The wrappers\<close>

text \<open>\<open>trackPageView\<close> (lines 78 to 84).\<close>

definition track_page_view :: "analytics_env \<Rightarrow> jstr option \<Rightarrow> analytics_call list" where
  "track_page_view env path =
     (let page_path = js_or path (if a_window env then pathname env else js ''/'') in
      util_track_event env LandingPageView
        (Some [(js ''category'', JStr (category_name CatPageView)), (js ''label'', JStr page_path)]))"

text \<open>\<open>trackInstagramClick\<close> (lines 89 to 94).\<close>

definition track_instagram_click :: "analytics_env \<Rightarrow> analytics_call list" where
  "track_instagram_click env =
     util_track_event env InstagramClick
       (Some [(js ''category'', JStr (category_name CatSocial)), (js ''label'', JStr (js ''instagram_link''))])"

text \<open>\<open>trackNotificationSignup\<close> (lines 99 to 105).\<close>

definition track_notification_signup :: "analytics_env \<Rightarrow> bool \<Rightarrow> analytics_call list" where
  "track_notification_signup env has_email =
     util_track_event env NotificationSignup
       (Some [(js ''category'', JStr (category_name CatForm)),
              (js ''label'', JStr (if has_email then js ''email'' else js ''kakao_id'')),
              (js ''value'', JNum 1)])"

text \<open>The question types of \<open>trackSurveyOptionSelect\<close> (line 111).\<close>

datatype question_type = QGender | QAge | QInterest | QSource | QReaction

primrec question_name :: "question_type \<Rightarrow> jstr" where
  "question_name QGender = js ''gender''"
| "question_name QAge = js ''age''"
| "question_name QInterest = js ''interest''"
| "question_name QSource = js ''source''"
| "question_name QReaction = js ''reaction''"

text \<open>\<open>trackSurveyOptionSelect\<close> (lines 110 to 120); the label is \<open>`${questionType}_${value}`\<close>.\<close>

definition option_label :: "question_type \<Rightarrow> jstr \<Rightarrow> jstr" where
  "option_label q v = question_name q @ js ''_'' @ v"

definition track_survey_option_select :: "analytics_env \<Rightarrow> question_type \<Rightarrow> jstr \<Rightarrow> analytics_call list" where
  "track_survey_option_select env q v =
     util_track_event env SurveyOptionSelect
       (Some [(js ''category'', JStr (category_name CatSurvey)),
              (js ''label'', JStr (option_label q v)),
              (js ''question_type'', JStr (question_name q)),
              (js ''selected_value'', JStr v)])"

text \<open>
  \<open>trackSurveySubmit\<close> (lines 125 to 138), with the answers object in the order of its
  type: \<open>gender\<close>, \<open>ageGroup\<close>, \<open>interest\<close>, \<open>source\<close>, \<open>reaction\<close>.
\<close>

type_synonym survey_answers = "jstr \<times> jstr \<times> jstr \<times> jstr \<times> jstr"

definition answers_props :: "survey_answers \<Rightarrow> props" where
  "answers_props ans =
     (case ans of (g, a, i, s, r) \<Rightarrow>
        [(js ''gender'', JStr g), (js ''ageGroup'', JStr a), (js ''interest'', JStr i),
         (js ''source'', JStr s), (js ''reaction'', JStr r)])"

definition track_survey_submit :: "analytics_env \<Rightarrow> survey_answers \<Rightarrow> analytics_call list" where
  "track_survey_submit env ans =
     util_track_event env SurveySubmitAction
       (Some (js_spread
               [(js ''category'', JStr (category_name CatSurvey)),
                (js ''label'', JStr (js ''survey_completed'')),
                (js ''value'', JNum 1)]
               (answers_props ans)))"

section \<open>The parameter type\<close>

text \<open>
  \<open>EventParams\<close> (lines 34 to 39): \<open>category\<close> is an \<open>EventCategory\<close>, \<open>label\<close> a string,
  \<open>value\<close> a number, each optional; any other key may hold a string, a number, a boolean
  or \<open>undefined\<close>, that is any value of the model.
\<close>

fun jsval_is_string :: "jsval \<Rightarrow> bool" where
  "jsval_is_string (JStr s) \<longleftrightarrow> True"
| "jsval_is_string JUndef \<longleftrightarrow> True"
| "jsval_is_string _ \<longleftrightarrow> False"

fun jsval_is_number :: "jsval \<Rightarrow> bool" where
  "jsval_is_number (JNum n) \<longleftrightarrow> True"
| "jsval_is_number JUndef \<longleftrightarrow> True"
| "jsval_is_number _ \<longleftrightarrow> False"

definition jsval_is_category :: "jsval \<Rightarrow> bool" where
  "jsval_is_category v \<longleftrightarrow>
     v = JUndef \<or> v \<in> set (map (JStr \<circ> category_name) [CatPageView, CatNavigation, CatForm, CatSurvey, CatSocial])"

definition event_params_ok :: "props option \<Rightarrow> bool" where
  "event_params_ok p =
     (case p of None \<Rightarrow> True
      | Some ps \<Rightarrow>
          list_all (\<lambda>(k, v). (k = js ''category'' \<longrightarrow> jsval_is_category v) \<and>
                             (k = js ''label'' \<longrightarrow> jsval_is_string v) \<and>
                             (k = js ''value'' \<longrightarrow> jsval_is_number v)) ps)"

section \<open>Lemmas on the helper\<close>

lemma question_name_no_sep: "95 \<notin> set (question_name q)"
  by (cases q) (simp_all add: js_def)

lemma question_name_inj: "question_name q = question_name q' \<longleftrightarrow> q = q'"
  by (cases q; cases q') (simp_all add: js_def)

lemma gtag_defaults_keys:
  "fst ` set [(js ''event_category'', c), (js ''event_label'', l), (js ''value'', v)] =
     {js ''event_category'', js ''event_label'', js ''value''}"
  by auto

lemma gtag_defaults_distinct:
  "distinct (map fst [(js ''event_category'', c), (js ''event_label'', l), (js ''value'', v)])"
  by (simp add: js_def)

text \<open>Every wrapper passes parameters of the type \<open>EventParams\<close>; Mixpanel receives
  them unchanged.\<close>

lemma wrapper_params_ok:
  "MixpanelTrack a p \<in> set (track_page_view env path) \<Longrightarrow> event_params_ok p"
  "MixpanelTrack a p \<in> set (track_instagram_click env) \<Longrightarrow> event_params_ok p"
  "MixpanelTrack a p \<in> set (track_notification_signup env h) \<Longrightarrow> event_params_ok p"
  "MixpanelTrack a p \<in> set (track_survey_option_select env q v) \<Longrightarrow> event_params_ok p"
  "MixpanelTrack a p \<in> set (track_survey_submit env ans) \<Longrightarrow> event_params_ok p"
  by (auto simp: track_page_view_def track_instagram_click_def track_notification_signup_def
                 track_survey_option_select_def track_survey_submit_def util_track_event_def
                 event_params_ok_def jsval_is_category_def answers_props_def js_spread_def
                 js_set_def Let_def js_def split: prod.splits if_splits)

section \<open>Properties of the helper\<close>

text \<open>
  C20: the object sent to \<open>gtag\<close> has no repeated key, and its keys are exactly
  \<open>event_category\<close>, \<open>event_label\<close>, \<open>value\<close> and the caller's parameters: the helper adds
  no identity of its own.
\<close>

theorem gtag_params_keys:
  "distinct (map fst (gtag_params p)) \<and>
   fst ` set (gtag_params p) =
     {js ''event_category'', js ''event_label'', js ''value''} \<union>
     (case p of None \<Rightarrow> {} | Some ps \<Rightarrow> fst ` set ps)"
  unfolding gtag_params_def
  by (simp add: js_spread_distinct gtag_defaults_distinct gtag_defaults_keys split: option.split)

text \<open>
  C21: a parameter the caller passes reaches \<open>gtag\<close> with the caller's value, also when it
  has the name of one of the three keys the helper fills in.
\<close>

theorem gtag_caller_wins:
  assumes "p = Some ps" and "k \<in> fst ` set ps"
  shows "map_of (gtag_params p) k = Some (prop_get p k)"
proof -
  from assms(2) obtain v where "map_of (rev ps) k = Some v"
    by (metis map_of_eq_None_iff not_Some_eq set_rev image_set)
  with assms(1) show ?thesis by (simp add: gtag_params_def prop_get_def)
qed

theorem gtag_caller_wins_witness:
  "map_of (gtag_params (Some [(js ''event_category'', JStr (js ''custom''))])) (js ''event_category'') =
     Some (JStr (js ''custom''))"
proof -
  have "js ''event_category'' \<in> fst ` set [(js ''event_category'', JStr (js ''custom''))]" by simp
  from gtag_caller_wins [OF refl this] show ?thesis by (simp add: prop_get_def)
qed

text \<open>
  C22: unless the caller sets \<open>event_category\<close> itself, \<open>gtag\<close> receives the caller's
  \<open>category\<close> there when it is truthy and \<open>"engagement"\<close> otherwise.
\<close>

theorem gtag_category_default:
  assumes "js ''event_category'' \<notin> (case p of None \<Rightarrow> {} | Some ps \<Rightarrow> fst ` set ps)"
  shows "map_of (gtag_params p) (js ''event_category'') =
           Some (if jsval_truthy (prop_get p (js ''category'')) then prop_get p (js ''category'')
                 else JStr (js ''engagement''))"
  using assms
  by (auto simp: gtag_params_def jsval_or_def map_add_def split: option.splits
           dest!: map_of_SomeD intro: rev_image_eqI)

theorem gtag_category_default_witness:
  "map_of (gtag_params None) (js ''event_category'') = Some (JStr (js ''engagement'')) \<and>
   map_of (gtag_params (Some [(js ''category'', JStr [])])) (js ''event_category'') =
     Some (JStr (js ''engagement''))"
proof -
  have a: "js ''event_category'' \<notin> (case (None :: props option) of None \<Rightarrow> {} | Some ps \<Rightarrow> fst ` set ps)"
    by simp
  have b: "js ''event_category'' \<notin>
             (case Some [(js ''category'', JStr [])] of None \<Rightarrow> {} | Some ps \<Rightarrow> fst ` set ps)"
    by (simp add: js_def)
  from gtag_category_default [OF a] gtag_category_default [OF b] show ?thesis
    by (simp add: prop_get_def js_def)
qed

text \<open>
  C23: the label of an option selection, \<open>question_value\<close>, determines the question and
  the value, since no question name contains the underscore.
\<close>

theorem option_label_injective:
  "option_label q v = option_label q' v' \<longleftrightarrow> q = q' \<and> v = v'"
proof
  assume "option_label q v = option_label q' v'"
  then have "question_name q @ 95 # v = question_name q' @ 95 # v'"
    by (simp add: option_label_def js_def)
  then show "q = q' \<and> v = v'"
    using split_at_sep [OF question_name_no_sep question_name_no_sep] question_name_inj by blast
qed simp

text \<open>
  C24: in a browser with \<open>gtag\<close>, the signup event is labelled \<open>email\<close> or
  \<open>kakao_id\<close>, never \<open>instagram_id\<close>; the category and label come both as
  \<open>event_\<close> keys and as the caller's own keys, in that order.
\<close>

theorem notification_signup_gtag:
  assumes "a_window env" and "has_gtag env"
  shows "Gtag (js ''event'') (js ''notification_signup'')
           [(js ''event_category'', JStr (js ''form'')),
            (js ''event_label'', JStr (if h then js ''email'' else js ''kakao_id'')),
            (js ''value'', JNum 1),
            (js ''category'', JStr (js ''form'')),
            (js ''label'', JStr (if h then js ''email'' else js ''kakao_id''))]
         \<in> set (track_notification_signup env h)"
  using assms
  by (simp add: track_notification_signup_def util_track_event_def gtag_params_def prop_get_def
                jsval_or_def js_spread_def js_set_def js_def)

theorem notification_signup_gtag_witness:
  "Gtag (js ''event'') (js ''notification_signup'')
     [(js ''event_category'', JStr (js ''form'')), (js ''event_label'', JStr (js ''kakao_id'')),
      (js ''value'', JNum 1), (js ''category'', JStr (js ''form'')), (js ''label'', JStr (js ''kakao_id''))]
   \<in> set (track_notification_signup
            \<lparr>a_window = True, has_gtag = True, has_mixpanel = False, dev_mode = False, pathname = js ''/''\<rparr>
            False)"
  using notification_signup_gtag [of "\<lparr>a_window = True, has_gtag = True, has_mixpanel = False,
                                        dev_mode = False, pathname = js ''/''\<rparr>" False]
  by simp

end
