(* ===== verification/Tailwind.thy ===== *)
theory Tailwind
  imports Prelude
begin

text \<open>
  The build configuration \<open>src/tailwind.config.ts\<close>: the \<open>content\<close> globs that tell
  Tailwind which files to scan for class names (lines 4 to 8), and the \<open>theme.extend\<close>
  tokens (lines 9 to 46). The globs are interpreted as fast-glob reads them: a path is
  split at \<open>/\<close>, a leading \<open>.\<close> segment names the project root, \<open>**\<close> stands for any
  number of directories, \<open>*\<close> for any part of one segment and \<open>{a,b}\<close> for one of the
  listed alternatives. Dot-file rules and escapes do not occur in the file and are left
  out. The lemmas decide which files of the project Tailwind scans.
\<close>

section \<open>Glob patterns\<close>

text \<open>The parts of one path segment of a pattern, and the segments of a pattern.\<close>

datatype gatom = GLit nat | GStar | GAlt "jstr list"

datatype gseg = DStar | GSeg "gatom list"

text \<open>\<open>s.split(c)\<close>: the pieces between the separators, empty ones included.\<close>

fun split_on :: "nat \<Rightarrow> jstr \<Rightarrow> jstr list" where
  "split_on c [] = [[]]"
| "split_on c (x # xs) =
     (if x = c then [] # split_on c xs
      else (case split_on c xs of [] \<Rightarrow> [[x]] | w # ws \<Rightarrow> (x # w) # ws))"

text \<open>The parts of a pattern segment: \<open>*\<close> (42), \<open>{\<close> (123) up to the next \<open>}\<close> (125)
  with its alternatives separated by \<open>,\<close> (44), and literal characters.\<close>

function parse_atoms :: "jstr \<Rightarrow> gatom list" where
  "parse_atoms [] = []"
| "parse_atoms (c # cs) =
     (if c = 42 then GStar # parse_atoms cs
      else if c = 123 then
        GAlt (split_on 44 (takeWhile (\<lambda>d. d \<noteq> 125) cs)) #
        parse_atoms (drop (Suc (length (takeWhile (\<lambda>d. d \<noteq> 125) cs))) cs)
      else GLit c # parse_atoms cs)"
  by pat_completeness auto
termination
  by (relation "measure length") auto

definition parse_seg :: "jstr \<Rightarrow> gseg" where
  "parse_seg s = (if s = js ''**'' then DStar else GSeg (parse_atoms s))"

text \<open>A pattern and a path as lists of segments, without the \<open>.\<close> of a relative path.\<close>

definition path_segs :: "jstr \<Rightarrow> jstr list" where
  "path_segs p = filter (\<lambda>s. s \<noteq> js ''.'') (split_on 47 p)"

definition parse_glob :: "jstr \<Rightarrow> gseg list" where
  "parse_glob g = map parse_seg (path_segs g)"

text \<open>Matching one segment, and a whole path. A star tries the empty match first and
  otherwise consumes one character; a double star likewise with directories.\<close>

fun seg_match :: "gatom list \<Rightarrow> jstr \<Rightarrow> bool" where
  "seg_match [] s \<longleftrightarrow> s = []"
| "seg_match (GLit c # p) s \<longleftrightarrow> (case s of [] \<Rightarrow> False | d # s' \<Rightarrow> c = d \<and> seg_match p s')"
| "seg_match (GStar # p) s \<longleftrightarrow>
     seg_match p s \<or> (case s of [] \<Rightarrow> False | d # s' \<Rightarrow> seg_match (GStar # p) s')"
| "seg_match (GAlt alts # p) s \<longleftrightarrow>
     list_ex (\<lambda>a. take (length a) s = a \<and> seg_match p (drop (length a) s)) alts"

fun glob_match :: "gseg list \<Rightarrow> jstr list \<Rightarrow> bool" where
  "glob_match [] xs \<longleftrightarrow> xs = []"
| "glob_match (DStar # ps) xs \<longleftrightarrow>
     glob_match ps xs \<or> (case xs of [] \<Rightarrow> False | x # xs' \<Rightarrow> glob_match (DStar # ps) xs')"
| "glob_match (GSeg a # ps) xs \<longleftrightarrow>
     (case xs of [] \<Rightarrow> False | x # xs' \<Rightarrow> seg_match a x \<and> glob_match ps xs')"

definition glob_covers :: "jstr \<Rightarrow> jstr \<Rightarrow> bool" where
  "glob_covers g p \<longleftrightarrow> glob_match (parse_glob g) (path_segs p)"

section \<open>The configuration\<close>

text \<open>\<open>content\<close> (lines 4 to 8), and whether Tailwind scans a file of the project.\<close>

definition tw_content :: "jstr list" where
  "tw_content = [js ''./src/app/**/*.{ts,tsx}'', js ''./src/components/**/*.{ts,tsx}'',
                 js ''./src/**/*.{ts,tsx}'']"

definition content_matches :: "jstr list \<Rightarrow> jstr \<Rightarrow> bool" where
  "content_matches cs p \<longleftrightarrow> list_ex (\<lambda>g. glob_covers g p) cs"

section \<open>The theme\<close>

text \<open>A theme value: a string, or a list of strings such as a font stack.\<close>

datatype theme_value = TVStr jstr | TVList "jstr list"

text \<open>A family name written in CSS single quotes (39).\<close>

definition css_quoted :: "jstr \<Rightarrow> jstr" where
  "css_quoted s = 39 # s @ [39]"

text \<open>The font stack of \<open>fontFamily.sans\<close> (lines 27 to 41), CSS quotes included.\<close>

definition tw_font_sans :: "jstr list" where
  "tw_font_sans =
     [css_quoted (js ''Noto Sans KR Variable''), css_quoted (js ''Noto Sans KR''), js ''system-ui'',
      js ''-apple-system'', js ''Segoe UI'', js ''Roboto'', js ''Ubuntu'', js ''Cantarell'',
      css_quoted (js ''Noto Sans''), css_quoted (js ''Helvetica Neue''), js ''Arial'',
      css_quoted (js ''Apple Color Emoji''), css_quoted (js ''Segoe UI Emoji'')]"

text \<open>\<open>theme.extend\<close> (lines 9 to 46), one section per key.\<close>

definition tw_extend :: "(jstr \<times> (jstr \<times> theme_value) list) list" where
  "tw_extend =
     [(js ''colors'',
        [(js ''pinkBg'', TVStr (js ''#FFF5F5'')), (js ''pinkSoft'', TVStr (js ''#FFE8E8'')),
         (js ''coral'', TVStr (js ''#FF6B6B'')), (js ''coralSoft'', TVStr (js ''#FF9E9E'')),
         (js ''divider'', TVStr (js ''#FFD9D9'')), (js ''textDark'', TVStr (js ''#222222''))]),
      (js ''boxShadow'',
        [(js ''roseSoft'', TVStr (js ''0 4px 6px -1px rgba(244, 63, 94, 0.12), 0 2px 4px -2px rgba(244, 63, 94, 0.08)''))]),
      (js ''borderRadius'', [(js ''xl'', TVStr (js ''0.75rem'')), (js ''2xl'', TVStr (js ''1rem''))]),
      (js ''fontFamily'', [(js ''sans'', TVList tw_font_sans)]),
      (js ''maxWidth'', [(js ''screen-lg'', TVStr (js ''1024px''))])]"

section \<open>Lemmas on the matcher\<close>

lemma glob_match_dstar_cons: "glob_match (DStar # ps) ys \<Longrightarrow> glob_match (DStar # ps) (y # ys)"
  by simp

lemma glob_match_drop_dir:
  assumes "glob_match (GSeg a # GSeg b # DStar # ps) xs"
  shows "glob_match (GSeg a # DStar # ps) xs"
proof -
  from assms obtain x y ys where xs: "xs = x # y # ys" and "seg_match a x"
    and "glob_match (DStar # ps) ys"
    by (auto simp del: glob_match.simps(2) split: list.splits)
  then show ?thesis by (simp del: glob_match.simps(2) add: glob_match_dstar_cons)
qed

lemma tw_content_parsed:
  "parse_glob (tw_content ! 0) =
     [GSeg (map GLit (js ''src'')), GSeg (map GLit (js ''app'')), DStar,
       GSeg [GStar, GLit 46, GAlt [js ''ts'', js ''tsx'']]]"
  "parse_glob (tw_content ! 1) =
      [GSeg (map GLit (js ''src'')), GSeg (map GLit (js ''components'')), DStar,
       GSeg [GStar, GLit 46, GAlt [js ''ts'', js ''tsx'']]]"
  "parse_glob (tw_content ! 2) =
      [GSeg (map GLit (js ''src'')), DStar, GSeg [GStar, GLit 46, GAlt [js ''ts'', js ''tsx'']]]"
  by (simp_all add: tw_content_def parse_glob_def path_segs_def parse_seg_def js_def)

lemma content_matches_three:
  "content_matches tw_content p \<longleftrightarrow>
     glob_covers (tw_content ! 0) p \<or> glob_covers (tw_content ! 1) p \<or> glob_covers (tw_content ! 2) p"
  by (simp add: content_matches_def tw_content_def)

lemma split_on_no_sep: "c \<notin> set u \<Longrightarrow> split_on c u = [u]"
  by (induction u) auto

lemma split_on_sep: "c \<notin> set u \<Longrightarrow> split_on c (u @ c # v) = u # split_on c v"
  by (induction u) (auto split: list.splits)

text \<open>A path through directories \<open>ds\<close> to a file \<open>f\<close> splits into its names.\<close>

lemma split_on_dirs:
  "\<forall>d\<in>set ds. c \<notin> set d \<Longrightarrow> c \<notin> set f \<Longrightarrow>
     split_on c (concat (map (\<lambda>d. d @ [c]) ds) @ f) = ds @ [f]"
  by (induction ds) (simp_all add: split_on_no_sep split_on_sep)

lemma seg_match_star_append: "seg_match p v \<Longrightarrow> seg_match (GStar # p) (u @ v)"
  by (induction u) auto

lemma glob_match_dstar_append: "glob_match ps ys \<Longrightarrow> glob_match (DStar # ps) (xs @ ys)"
proof (induction xs)
  case Nil
  then show ?case by simp
next
  case (Cons x xs)
  then show ?case by (simp del: glob_match.simps(2) add: glob_match_dstar_cons)
qed

lemma seg_match_lits: "seg_match (map GLit w) x \<longleftrightarrow> x = w"
  by (induction w arbitrary: x) (auto split: list.splits)

lemma seg_match_ts_ext:
  "e \<in> {js ''ts'', js ''tsx''} \<Longrightarrow> seg_match [GStar, GLit 46, GAlt [js ''ts'', js ''tsx'']] (b @ 46 # e)"
  by (rule seg_match_star_append) (auto simp: js_def)

section \<open>Which files are scanned\<close>

text \<open>
  C34: the first two content globs are redundant: a path is scanned exactly when the last
  glob, \<open>./src/**/*.{ts,tsx}\<close>, matches it, since \<open>**\<close> also stands for the
  directories the other two name.
\<close>

theorem content_globs_redundant:
  "content_matches tw_content p \<longleftrightarrow> glob_covers (tw_content ! 2) p"
proof -
  have a: "glob_covers (tw_content ! 0) p \<Longrightarrow> glob_covers (tw_content ! 2) p"
    unfolding glob_covers_def tw_content_parsed by (rule glob_match_drop_dir)
  have b: "glob_covers (tw_content ! 1) p \<Longrightarrow> glob_covers (tw_content ! 2) p"
    unfolding glob_covers_def tw_content_parsed by (rule glob_match_drop_dir)
  from a b show ?thesis by (simp only: content_matches_three) blast
qed
text \<open>
  C35: Tailwind scans every TypeScript source under \<open>src\<close>: a path \<open>./src/d1/.../dn/b.ts\<close>
  or \<open>.tsx\<close>, at any depth, whose directory and base names are non-empty and are not dot
  files; and it scans nothing outside \<open>src\<close>, such as the configuration file itself.
\<close>

theorem app_sources_scanned:
  assumes "\<forall>d\<in>set ds. d \<noteq> [] \<and> hd d \<noteq> 46 \<and> 47 \<notin> set d"
    and "b \<noteq> []" and "hd b \<noteq> 46" and "47 \<notin> set b" and "e \<in> {js ''ts'', js ''tsx''}"
  shows "content_matches tw_content (js ''./src/'' @ concat (map (\<lambda>d. d @ [47]) ds) @ b @ 46 # e) \<and>
         (path_segs p = [] \<or> hd (path_segs p) \<noteq> js ''src'' \<longrightarrow> \<not> content_matches tw_content p)"
proof
  let ?f = "b @ 46 # e"
  have e: "47 \<notin> set e" "e \<noteq> []" using assms(5) by (auto simp: js_def)
  have segs: "path_segs (js ''./src/'' @ concat (map (\<lambda>d. d @ [47]) ds) @ ?f) = js ''src'' # ds @ [?f]"
  proof -
    have "split_on 47 (js ''./src/'' @ concat (map (\<lambda>d. d @ [47]) ds) @ ?f) =
            js ''.'' # js ''src'' # ds @ [?f]"
      using assms(1,4) e by (simp add: js_def split_on_dirs)
    moreover have "?f \<noteq> js ''.''" using e by (cases b) (auto simp: js_def)
    moreover have "\<forall>d\<in>set ds. d \<noteq> js ''.''" using assms(1) by (auto simp: js_def)
    ultimately show ?thesis by (simp add: path_segs_def js_def)
  qed
  have "glob_match [GSeg [GStar, GLit 46, GAlt [js ''ts'', js ''tsx'']]] [?f]"
    using seg_match_ts_ext [OF assms(5)] by simp
  then have "glob_match (DStar # [GSeg [GStar, GLit 46, GAlt [js ''ts'', js ''tsx'']]]) (ds @ [?f])"
    by (rule glob_match_dstar_append)
  then have "glob_covers (tw_content ! 2) (js ''./src/'' @ concat (map (\<lambda>d. d @ [47]) ds) @ ?f)"
    unfolding glob_covers_def tw_content_parsed segs by (simp add: seg_match_lits)
  then show "content_matches tw_content (js ''./src/'' @ concat (map (\<lambda>d. d @ [47]) ds) @ ?f)"
    by (simp add: content_matches_three)
next
  show "path_segs p = [] \<or> hd (path_segs p) \<noteq> js ''src'' \<longrightarrow> \<not> content_matches tw_content p"
    by (cases "path_segs p")
      (auto simp: content_matches_three glob_covers_def tw_content_parsed [simplified] seg_match_lits
         simp del: glob_match.simps(2))
qed

theorem app_sources_scanned_witness:
  "content_matches tw_content (js ''./src/app/page.tsx'') \<and>
   content_matches tw_content (js ''./src/lib/utils/analytics.ts'') \<and>
   \<not> content_matches tw_content (js ''./tailwind.config.ts'')"
proof -
  have "content_matches tw_content (js ''./src/app/page.tsx'')"
    using app_sources_scanned [of "[js ''app'']" "js ''page''" "js ''tsx''"] by (simp add: js_def)
  moreover have "content_matches tw_content (js ''./src/lib/utils/analytics.ts'')"
    using app_sources_scanned [of "[js ''lib'', js ''utils'']" "js ''analytics''" "js ''ts''"]
    by (simp add: js_def)
  moreover have "\<not> content_matches tw_content (js ''./tailwind.config.ts'')"
    using app_sources_scanned [of "[]" "js ''a''" "js ''ts''" "js ''./tailwind.config.ts''"]
    by (simp add: js_def path_segs_def)
  ultimately show ?thesis by blast
qed

end
