(* ===== verification/Layout.thy ===== *)
theory Layout
  imports Tailwind
begin

text \<open>
  The root layout \<open>src/src/app/layout.tsx\<close>: the page metadata (lines 5 to 10), the two
  side-effect imports (lines 2 and 3: the global stylesheet and the variable Noto Sans KR
  font), and \<open>RootLayout\<close> (lines 12 to 24), which wraps every page in an
  \<open>html\<close> element of language \<open>ko\<close> and a \<open>body\<close> with four classes. The theory
  holds the data only; its classes are styling with no behaviour to prove.
\<close>

section \<open>The layout\<close>

record metadata =
  meta_title :: jstr
  meta_description :: jstr
  meta_icon :: jstr

text \<open>\<open>metadata\<close> (lines 5 to 10); the Korean text by its code points.\<close>

definition layout_metadata :: metadata where
  "layout_metadata =
     \<lparr>meta_title = [0xC18C, 0xAC1C, 0xD305, 0xC774, 32, 0xC5F4, 0xB9BD, 0xB2C8, 0xB2E4],
      meta_description =
        [0xC9C0, 0xD558, 0xCCA0, 32, 0xBC18, 0xB300, 0xD3B8, 32, 0xCCAB, 0xC778, 0xC0C1, 0xC73C,
         0xB85C, 32, 0xC5F0, 0xACB0, 0xB418, 0xB294, 32, 0xC0C8, 0xB85C, 0xC6B4, 32, 0xC18C,
         0xAC1C, 0xD305, 32, 0xC2E4, 0xD5D8, 46, 32, 0xC624, 0xD508, 32, 0xC54C, 0xB9BC, 0xC744,
         32, 0xBC1B, 0xC544, 0xBCF4, 0xC138, 0xC694, 46],
      meta_icon = js ''/favicon.ico''\<rparr>"

text \<open>The side-effect imports (lines 2 and 3).\<close>

definition layout_imports :: "jstr list" where
  "layout_imports = [js ''./globals.css'', js ''@fontsource-variable/noto-sans-kr'']"

text \<open>The document \<open>RootLayout\<close> returns around the page.\<close>

datatype doc = Html jstr doc | Body "jstr list" doc | Children

definition root_layout :: doc where
  "root_layout =
     Html (js ''ko'')
       (Body [js ''antialiased'', js ''bg-[#FFF5F5]'', js ''text-[#222]'', js ''font-sans''] Children)"

end
