(* ===== verification/Spec2Isabelle.thy ===== *)
theory Spec2Isabelle
  imports Phases Outline Analytics Layout
begin

text \<open>
  \<^bold>\<open>A verification development of the landing page of blind_date_explained.\<close>

  \<^bold>\<open>The program.\<close> The repository is one Next.js page, \<open>src/src/app/page.tsx\<close>
  (component \<open>Home\<close>), with a survey of four single-choice questions, a signup form for a
  contact, and analytics sent to Amplitude; \<open>src/src/lib/utils/analytics.ts\<close> is a second
  analytics helper (gtag and Mixpanel) that nothing imports; \<open>layout.tsx\<close> and
  \<open>tailwind.config.ts\<close> are markup and styling. In the page, every handler reports through
  \<open>trackEvent\<close> (lines 54 to 67), which resolves the device identity with
  \<open>getOrCreateAnonymousUserId\<close> (lines 38 to 51, \<open>localStorage\<close>) and adds it to the
  event; one \<open>useEffect\<close> (lines 70 to 123) initialises the SDK and installs a scroll and a
  \<open>beforeunload\<close> listener; the two forms wait on timers that stand in for the network.

  \<^bold>\<open>Theories and what they model.\<close>
  \<^item> \<open>Prelude\<close>: JavaScript values: strings as lists of UTF-16 code units (\<open>js\<close> turns an
    ASCII literal into one), \<open>trim\<close>, \<open>includes\<close>, \<open>substring\<close>, truthiness and \<open>||\<close>,
    property bags as association lists with the key order of object spread (\<open>js_set\<close>,
    \<open>js_spread\<close>), the division and comparison of the scroll test, \<open>Math.round\<close> of a
    percentage (\<open>js_round_percent\<close>, exact for the fifths the page computes),
    and the exceptions the page can meet as the \<open>js_error\<close> half of a sum type.
  \<^item> \<open>Identity\<close>: \<open>getOrCreateAnonymousUserId\<close> over a storage map and an environment
    record (\<open>id_env\<close>) that says whether \<open>window\<close> exists, whether storage is usable and has
    room, and what the clock and \<open>Math.random\<close> give; \<open>SecurityError\<close> and
    \<open>QuotaExceededError\<close> are \<open>Inl\<close> results.
  \<^item> \<open>Tracking\<close>: \<open>trackEvent\<close>; the SDK is a sink that records the calls it accepts
    (\<open>amp_call\<close>) and may throw, as the environment's \<open>sink_ok\<close> says.
  \<^item> \<open>State\<close>: the record \<open>page\<close> of every \<open>useState\<close> and the progress ref, extended with
    what the model needs of React: the values the installed listeners captured
    (\<open>listeners\<close>) and the pending timer continuations (\<open>survey_wait\<close>,
    \<open>interest_wait\<close>, \<open>revert_timers\<close>).
  \<^item> \<open>Survey\<close>, \<open>Signup\<close>, \<open>Observer\<close>: the option \<open>onClick\<close>s, \<open>onSubmitSurvey\<close> and
    \<open>onSubmit\<close> split at their \<open>await\<close> into the handler and the continuation its timer
    runs, the hide timer, \<open>handleScroll\<close>, \<open>handleBeforeUnload\<close> and the effect
    (\<open>init_amplitude\<close>, \<open>run_effect\<close>, and \<open>commit\<close>, which re-runs the effect when its
    dependencies changed).
  \<^item> \<open>Page\<close>: the events of a visit (\<open>ui_event\<close>), the handler each runs under the JSX's
    conditional rendering and \<open>disabled\<close> attributes (\<open>page_step\<close>), runs, and the
    inductive set \<open>reachable\<close> of the states a visit reaches from the first commit.
  \<^item> \<open>Invariants\<close>: \<open>page_inv\<close>, the conjunction of the survey, signup, listener,
    page-view, once-only and identity invariants, kept by every event
    (\<open>reachable_page_inv\<close>, by rule induction).
  \<^item> \<open>View\<close>: the rendered survey and signup sections computed from the state, and the
    question each button group belongs to.
  \<^item> \<open>Phases\<close>: the survey and signup state machines of the design as inductive step
    relations, the abstraction of a page onto them, and that every event is a stutter or
    one abstract step.
  \<^item> \<open>Outline\<close>: the frame of the page around the forms: the header and footer links,
    the section \<open>id\<close>s they lead to, and the texts of the two submit buttons.
  \<^item> \<open>Analytics\<close>: \<open>analytics.ts\<close>, \<open>trackEvent\<close> as the list of calls it makes, its
    five wrappers, and the parameter type \<open>EventParams\<close> they respect.
  \<^item> \<open>Tailwind\<close>: \<open>tailwind.config.ts\<close>: the \<open>content\<close> globs with an executable
    glob matcher (\<open>**\<close>, \<open>*\<close>, \<open>{a,b}\<close>, as fast-glob reads them) deciding which files
    are scanned, and the tokens of \<open>theme.extend\<close>.
  \<^item> \<open>Layout\<close>: \<open>layout.tsx\<close>: the metadata, the side-effect imports and the document
    \<open>RootLayout\<close> returns.
  \<^item> this theory: a concrete visit (\<open>env0\<close>, \<open>cfg0\<close>, \<open>visit0\<close>) on which the witnesses
    run, and the properties that span the page.

  \<^bold>\<open>Modelling choices.\<close> Each event is a discrete callback; a click or a keystroke is
  followed by React's synchronous commit, while a timer callback, a scroll or an unload
  leaves its updates to a later \<open>Commit\<close> event, which is how stale listeners arise. The
  browser's answers (storage, quota, clock, randomness, the sink) are a fresh environment
  record at every event, so every property holds whatever the browser answers. Storage is
  private to the page: no other tab writes the identity's key and nothing clears it during
  a visit. No
  fuel or bound is needed: every definition is total and structural, and the only
  unbounded behaviour, a visit, is a list of events or the inductive \<open>reachable\<close>.

  \<^bold>\<open>What is proved.\<close> Per component: the identity is created once and returned unchanged
  (C4, C25); each handler on each branch (C1, C11, C16, C17, C26); a pending submission
  holds the current answers and the missing-answer alert is unreachable (C5, C6);
  \<open>submit survey\<close>, \<open>start survey\<close> and \<open>scroll depth\<close> once only where the latch is
  current (C2, C3, C9), page views bounded (C7), no storage or sink use without a key
  (C14), the submitted survey final (C15), the signup timers (C18, C19, C33); the view's
  highlight and busy text agree with the answers and the pending timers (C29, C30);
  refinement of the designed state machines (C31, C32); the helper of \<open>analytics.ts\<close>
  (C20 to C24); which files Tailwind scans (C34, C35). Where the code departs from its
  design, the departure is proved for every state where it applies, with a concrete
  visit as witness: in a browser that answers every call (\<open>calls_succeed\<close>), the
  first gender click re-runs the effect and re-sends the page view (C8), a listener
  installed before the latch was set sends \<open>scroll depth\<close> on each of two scrolls
  (C10), leaving between the survey's timer and the re-render reports the submitted
  survey as abandoned (C12); only the gender question starts the survey (C13); the
  progress is the last clicked question's position (C27, C28).

  \<^bold>\<open>Not modelled.\<close> Console output; the static markup, styling and animation props
  of the page, which have no behaviour; the class names of the page and of the layout's
  body, and the CSS Tailwind generates from them; glob features the configuration does not
  use (dot files, escapes, negation); the Amplitude SDK beyond accepting or throwing on a call; server rendering
  and the time before the first commit; unmounting, since the page lives until unload;
  floating point, since the only divisions are the scroll test, modelled on rationals
  with \<open>Infinity\<close> and \<open>NaN\<close>, and the progress, whose exact values the doubles reach
  for the fifths the page computes (\<open>js_round_percent\<close> is not a model of
  \<open>Math.round\<close> on other quotients).
\<close>

section \<open>A concrete visit\<close>

text \<open>
  The witnesses below run the page in a browser that answers every call: storage usable,
  quota free, the clock at 7 ms, \<open>Math.random().toString(36)\<close> giving \<open>"0.abc"\<close>, the
  sink accepting everything; the build carries the API key \<open>"key"\<close>.
\<close>

definition env0 :: env where
  "env0 = \<lparr>has_window = True, storage_ok = True, quota_ok = True, now_ms = 7,
           random36 = js ''0.abc'', sink_ok = (\<lambda>_. True)\<rparr>"

definition cfg0 :: config where
  "cfg0 = Some (js ''key'')"

definition in_browser :: "ui_event list \<Rightarrow> (env \<times> ui_event) list" where
  "in_browser evs = map (\<lambda>ev. (env0, ev)) evs"

text \<open>The page right after its first commit, on a first visit (empty storage).\<close>

definition visit0 :: page where
  "visit0 = commit cfg0 env0 (init_page Map.empty)"

text \<open>A window scrolled exactly half-way: \<open>1000 / (2800 - 800) * 100 = 50\<close>.\<close>

definition vp_half :: viewport where
  "vp_half = \<lparr>inner_height = 800, scroll_height = 2800, scroll_y = 1000, doc_scroll_top = 1000\<rparr>"

text \<open>Answering the four questions and submitting; the timer has not fired yet.\<close>

definition answer_events :: "ui_event list" where
  "answer_events = [ClickGender 0, ClickAgeGroup 1, ClickInterest 0, ClickReaction 2, ClickSubmitSurvey]"

text \<open>Typing a contact, submitting it, and the first timer firing.\<close>

definition signup_events :: "ui_event list" where
  "signup_events = [InputChange (js ''a@b.com''), SubmitInterest, InterestTimer]"

lemma reachable_visit0: "reachable cfg0 (run cfg0 (in_browser evs) visit0)"
proof -
  have "reachable cfg0 visit0"
    unfolding visit0_def by (rule reachable.mount) (simp add: env0_def)
  then show ?thesis
    by (rule reachable_run) (auto simp: in_browser_def env0_def)
qed

lemma reachable_visit0_start: "reachable cfg0 visit0"
  using reachable_visit0 [of "[]"] by (simp add: in_browser_def)

lemmas visit_simps = run_simps visit0_def env0_def cfg0_def in_browser_def answer_events_def
  vp_half_def

section \<open>The survey across the page\<close>

text \<open>
  C2: \<open>submit survey\<close> reaches the sink at most once in a page load, and only once the
  survey is submitted.
\<close>

theorem submit_survey_once:
  assumes "reachable cfg s"
  shows "events_named (js ''submit survey'') (sink s) \<le> of_bool (is_submitted s)"
  using reachable_page_inv [OF assms] by (simp add: page_inv_def once_inv_def)

theorem submit_survey_once_witness:
  "reachable cfg0 (run cfg0 (in_browser (answer_events @ [SurveyTimer])) visit0) \<and>
   events_named (js ''submit survey'') (sink (run cfg0 (in_browser (answer_events @ [SurveyTimer])) visit0))
     \<le> of_bool (is_submitted (run cfg0 (in_browser (answer_events @ [SurveyTimer])) visit0))"
  using reachable_visit0 submit_survey_once by blast

text \<open>
  C3: \<open>start survey\<close> reaches the sink at most once in a page load, and only after a
  gender was chosen.
\<close>

theorem start_survey_once:
  assumes "reachable cfg s"
  shows "events_named (js ''start survey'') (sink s) \<le> 1 \<and>
         (events_named (js ''start survey'') (sink s) = 1 \<longrightarrow> gender s \<noteq> None)"
  using reachable_page_inv [OF assms]
  by (auto simp: page_inv_def once_inv_def survey_inv_def)

theorem start_survey_once_witness:
  "reachable cfg0 (run cfg0 (in_browser [ClickGender 1]) visit0) \<and>
   events_named (js ''start survey'') (sink (run cfg0 (in_browser [ClickGender 1]) visit0)) = 1 \<and>
   gender (run cfg0 (in_browser [ClickGender 1]) visit0) \<noteq> None"
proof -
  have e: "events_named (js ''start survey'') (sink (run cfg0 (in_browser [ClickGender 1]) visit0)) = 1"
    by (simp add: visit_simps)
  with start_survey_once [OF reachable_visit0] reachable_visit0 show ?thesis by simp
qed

text \<open>
  C4: every identity sent to the sink (an event's \<open>anonymous_user_id\<close> or the argument of
  \<open>setUserId\<close>) is the same non-empty string, the one stored in the browser.
\<close>

theorem same_identity_everywhere:
  assumes "reachable cfg s" and "c1 \<in> set (sink s)" and "c2 \<in> set (sink s)"
    and "carried_id c1 = Some u1" and "carried_id c2 = Some u2"
  shows "u1 = u2 \<and> u1 \<noteq> [] \<and> storage s anon_storage_key = Some u1"
proof -
  from reachable_page_inv [OF assms(1)] have ids: "ids_ok (storage s) (sink s)"
    by (simp add: page_inv_def)
  have 1: "storage s anon_storage_key = Some u1 \<and> u1 \<noteq> []"
    using ids assms(2,4) unfolding ids_ok_def by blast
  have "storage s anon_storage_key = Some u2"
    using ids assms(3,5) unfolding ids_ok_def by blast
  with 1 show ?thesis by simp
qed

theorem same_identity_everywhere_witness:
  "reachable cfg0 visit0 \<and>
   AmpSetUserId (js ''user_7_abc'') \<in> set (sink visit0) \<and>
   AmpTrack (js ''view landing'') [(anon_prop, JStr (js ''user_7_abc''))] \<in> set (sink visit0) \<and>
   js ''user_7_abc'' \<noteq> [] \<and> storage visit0 anon_storage_key = Some (js ''user_7_abc'')"
proof -
  have sink: "sink visit0 = [AmpInit (js ''key''), AmpSetUserId (js ''user_7_abc''),
      AmpTrack (js ''view landing'') [(anon_prop, JStr (js ''user_7_abc''))]]"
    by (simp add: visit_simps anon_prop_def js_set_def)
  have "carried_id (AmpTrack (js ''view landing'') [(anon_prop, JStr (js ''user_7_abc''))]) =
          Some (js ''user_7_abc'')"
    by simp
  with sink same_identity_everywhere [OF reachable_visit0_start, of "AmpSetUserId (js ''user_7_abc'')"
      "AmpTrack (js ''view landing'') [(anon_prop, JStr (js ''user_7_abc''))]"]
  show ?thesis using reachable_visit0_start by simp
qed

text \<open>
  C5: a submission waiting on its timer holds exactly the answers on the page, all four
  set, while the page shows it as submitting: the closure of \<open>onSubmitSurvey\<close> cannot go
  stale, because the buttons are disabled meanwhile.
\<close>

theorem pending_submission_current:
  assumes "reachable cfg s" and "survey_wait s = Some a"
  shows "a = (the (gender s), the (age_group s), the (interest s), the (reaction s)) \<and>
         all_answered s \<and> is_submitting s"
  using reachable_page_inv [OF assms(1)] assms(2)
  by (auto simp: page_inv_def survey_inv_def split: if_splits)

theorem pending_submission_current_witness:
  "reachable cfg0 (run cfg0 (in_browser answer_events) visit0) \<and>
   survey_wait (run cfg0 (in_browser answer_events) visit0) =
     Some (js ''male'', js ''25-29'', js ''yes'', js ''nervous'') \<and>
   all_answered (run cfg0 (in_browser answer_events) visit0)"
proof -
  have w: "survey_wait (run cfg0 (in_browser answer_events) visit0) =
             Some (js ''male'', js ''25-29'', js ''yes'', js ''nervous'')"
    by (simp add: visit_simps)
  with pending_submission_current [OF reachable_visit0 w] reachable_visit0 show ?thesis by simp
qed

text \<open>
  C6: the alert of \<open>onSubmitSurvey\<close> for a missing answer is never shown: the submit
  button is disabled until all four answers are set.
\<close>

theorem survey_alert_unreachable:
  assumes "reachable cfg s"
  shows "AlertSurveyIncomplete \<notin> set (alerts s)"
  using reachable_page_inv [OF assms] by (simp add: page_inv_def survey_inv_def)

theorem survey_alert_unreachable_witness:
  "reachable cfg0 (run cfg0 (in_browser [ClickSubmitSurvey]) visit0) \<and>
   AlertSurveyIncomplete \<notin> set (alerts (run cfg0 (in_browser [ClickSubmitSurvey]) visit0))"
  using reachable_visit0 survey_alert_unreachable by blast

section \<open>The effect and the window listeners\<close>

text \<open>
  C7: the page-view event \<open>view landing\<close> reaches the sink at most four times in a page
  load: once per run of the effect, which re-runs only when one of its three boolean
  dependencies turns true.
\<close>

theorem view_landing_bounded:
  assumes "reachable cfg s"
  shows "events_named (js ''view landing'') (sink s) \<le> 4"
proof -
  from reachable_page_inv [OF assms] obtain d
    where "listeners s = Some d" and "events_named view_landing (sink s) \<le> Suc (flag_count d)"
    by (auto simp: page_inv_def view_inv_def split: option.splits)
  with flag_count_le [of d] show ?thesis by simp
qed

theorem view_landing_bounded_witness:
  "reachable cfg0 (run cfg0 (in_browser [ClickGender 0, Scroll vp_half]) visit0) \<and>
   events_named (js ''view landing'')
     (sink (run cfg0 (in_browser [ClickGender 0, Scroll vp_half]) visit0)) \<le> 4"
  using reachable_visit0 view_landing_bounded by blast

text \<open>
  C8: the page-view event is not sent once per page load: in every reachable state before
  the survey is started, a click on a gender button flips \<open>hasStartedSurvey\<close>, a
  dependency of the effect, and the effect initialises the SDK again and sends one more
  \<open>view landing\<close> (in a browser that answers every call, with a key configured).
\<close>

theorem view_landing_refires:
  assumes "reachable cfg s" and "\<not> has_started_survey s" and "options_enabled s"
    and "i < length gender_items" and "api_key cfg \<noteq> []" and "calls_succeed env"
  shows "events_named (js ''view landing'') (sink (page_step cfg env (ClickGender i) s)) =
           Suc (events_named (js ''view landing'') (sink s))"
proof -
  let ?t = "select_gender cfg env (gender_items ! i) s"
  from reachable_invs [OF assms(1)] obtain d where d: "listeners s = Some d"
    and le: "deps_le d (effect_deps s)"
    by (auto simp: listener_inv_def split: option.splits)
  have t: "listeners ?t = Some d" "has_started_survey ?t"
    "events_named (js ''view landing'') (sink ?t) = events_named (js ''view landing'') (sink s)"
    using d by (simp_all add: select_gender_def Let_def)
  from le assms(2) t(2) have "d \<noteq> effect_deps ?t" by (auto simp: deps_le_def effect_deps_def)
  with t(1) have "commit cfg env ?t = run_effect cfg env ?t" by (simp add: commit_def)
  with assms(3,4) t(3) show ?thesis
    by (simp add: click_option_def run_effect_def init_amplitude_sends_view [OF assms(5,6)])
qed

theorem view_landing_refires_witness:
  "events_named (js ''view landing'') (sink visit0) = 1 \<and>
   events_named (js ''view landing'') (sink (page_step cfg0 env0 (ClickGender 0) visit0)) = 2"
proof -
  have h: "\<not> has_started_survey visit0" "options_enabled visit0" "0 < length gender_items"
    "api_key cfg0 \<noteq> []" "calls_succeed env0"
    by (simp_all add: visit_simps calls_succeed_def)
  have "events_named (js ''view landing'') (sink visit0) = 1"
    by (simp add: visit_simps)
  with view_landing_refires [OF reachable_visit0_start h] show ?thesis by simp
qed

text \<open>
  C9: once the scroll-depth latch is set and the page has re-rendered, no later event of
  the visit sends \<open>scroll depth\<close> again.
\<close>

theorem scroll_depth_latched:
  assumes "reachable cfg s" and "scroll_depth_tracked s"
  shows "events_named (js ''scroll depth'') (sink (run cfg evs (commit cfg env s))) =
           events_named (js ''scroll depth'') (sink (commit cfg env s))"
proof -
  have gen: "listener_inv t \<Longrightarrow> listeners t \<noteq> None \<Longrightarrow> fst (the (listeners t)) \<Longrightarrow>
          events_named (js ''scroll depth'') (sink (run cfg evs t)) =
          events_named (js ''scroll depth'') (sink t)" for t
  proof (induction evs arbitrary: t)
    case Nil
    then show ?case by simp
  next
    case (Cons x evs)
    obtain e ev where x: "x = (e, ev)" by (cases x)
    from Cons.prems obtain d where "listeners t = Some d" and "fst d" by auto
    from page_step_latched [OF Cons.prems(1) this] Cons.IH x show ?case by simp
  qed
  have "listener_inv (commit cfg env s)"
    using listener_inv_step [of s cfg env Commit] reachable_page_inv [OF assms(1)]
    by (simp add: page_inv_def)
  moreover have "listeners (commit cfg env s) \<noteq> None"
    by simp
  moreover have "fst (the (listeners (commit cfg env s)))"
    using assms(2) by (simp add: effect_deps_def)
  ultimately show ?thesis by (rule gen)
qed

theorem scroll_depth_latched_witness:
  "reachable cfg0 (run cfg0 (in_browser [Scroll vp_half]) visit0) \<and>
   scroll_depth_tracked (run cfg0 (in_browser [Scroll vp_half]) visit0) \<and>
   events_named (js ''scroll depth'')
     (sink (run cfg0 (in_browser [Scroll vp_half, Scroll vp_half])
              (commit cfg0 env0 (run cfg0 (in_browser [Scroll vp_half]) visit0)))) =
   events_named (js ''scroll depth'') (sink (commit cfg0 env0 (run cfg0 (in_browser [Scroll vp_half]) visit0)))"
proof -
  have t: "scroll_depth_tracked (run cfg0 (in_browser [Scroll vp_half]) visit0)"
    by (simp add: visit_simps)
  show ?thesis
    using scroll_depth_latched [OF reachable_visit0 t] reachable_visit0 t by blast
qed

text \<open>
  C10: the scroll-depth latch is React state read by a listener installed at the last
  render: whenever the installed listener captured an unset latch, two scroll events past
  half-way before the re-render both pass the guard and the event is sent twice.
\<close>

theorem scroll_depth_twice:
  assumes "listeners s = Some d" and "\<not> fst d" and "scroll_reached vp" and "scroll_reached vp'"
    and "api_key cfg \<noteq> []" and "calls_succeed env" and "calls_succeed env'"
  shows "events_named (js ''scroll depth'')
           (sink (page_step cfg env' (Scroll vp') (page_step cfg env (Scroll vp) s))) =
         events_named (js ''scroll depth'') (sink s) + 2"
  using assms by (simp add: handle_scroll_def track_event_sends)

theorem scroll_depth_twice_witness:
  "events_named (js ''scroll depth'')
     (sink (page_step cfg0 env0 (Scroll vp_half) (page_step cfg0 env0 (Scroll vp_half) visit0))) = 2"
proof -
  have h: "listeners visit0 = Some (False, False, False)" "scroll_reached vp_half"
    "api_key cfg0 \<noteq> []" "calls_succeed env0" "events_named (js ''scroll depth'') (sink visit0) = 0"
    by (simp_all add: visit_simps vp_half_def calls_succeed_def)
  from scroll_depth_twice [OF h(1) _ h(2) h(2) h(3) h(4) h(4)] h(5) show ?thesis by simp
qed

text \<open>
  C11: with listeners installed by the current render, leaving the page sends
  \<open>abandon survey\<close> with the progress ref exactly when the survey was started and not
  submitted, and does nothing else.
\<close>

theorem abandon_when_current:
  assumes "listeners s = Some (effect_deps s)"
  shows "page_step cfg env BeforeUnload s =
           (if has_started_survey s \<and> \<not> is_submitted s
            then track_event cfg env (js ''abandon survey'')
                   [(js ''progress_percent'', JNum (int (survey_progress s)))] s
            else s)"
  using assms by (simp add: handle_before_unload_def effect_deps_def)

theorem abandon_when_current_witness:
  "listeners (run cfg0 (in_browser [ClickGender 0]) visit0) =
     Some (effect_deps (run cfg0 (in_browser [ClickGender 0]) visit0)) \<and>
   events_named (js ''abandon survey'')
     (sink (page_step cfg0 env0 BeforeUnload (run cfg0 (in_browser [ClickGender 0]) visit0))) = 1"
proof -
  have l: "listeners (run cfg0 (in_browser [ClickGender 0]) visit0) =
             Some (effect_deps (run cfg0 (in_browser [ClickGender 0]) visit0))"
    by (simp add: visit_simps)
  have "events_named (js ''abandon survey'')
          (sink (if has_started_survey (run cfg0 (in_browser [ClickGender 0]) visit0) \<and>
                    \<not> is_submitted (run cfg0 (in_browser [ClickGender 0]) visit0)
                 then track_event cfg0 env0 (js ''abandon survey'')
                   [(js ''progress_percent'',
                     JNum (int (survey_progress (run cfg0 (in_browser [ClickGender 0]) visit0))))]
                   (run cfg0 (in_browser [ClickGender 0]) visit0)
                 else run cfg0 (in_browser [ClickGender 0]) visit0)) = 1"
    by (simp add: visit_simps)
  with l abandon_when_current [OF l] show ?thesis by simp
qed

text \<open>
  C12: the unload listener reads \<open>isSubmitted\<close> from the render that installed it, so
  from every reachable state with a submission pending and current listeners, a visitor
  who leaves after the survey's timer fired but before the re-render is reported as having
  abandoned the survey that was just submitted.
\<close>

theorem abandon_after_submit:
  assumes "reachable cfg s" and "survey_wait s \<noteq> None" and "listeners s = Some (effect_deps s)"
    and "api_key cfg \<noteq> []" and "calls_succeed env'"
  shows "is_submitted (page_step cfg env' BeforeUnload (page_step cfg env SurveyTimer s)) \<and>
         events_named (js ''abandon survey'')
           (sink (page_step cfg env' BeforeUnload (page_step cfg env SurveyTimer s))) =
           Suc (events_named (js ''abandon survey'') (sink s))"
proof -
  from assms(2) obtain a where a: "survey_wait s = Some a" by blast
  with reachable_invs [OF assms(1)] have "has_started_survey s" "\<not> is_submitted s"
    by (auto simp: survey_inv_def all_answered_def split: if_splits)
  then have d: "listeners (survey_resume cfg env a s) = Some (scroll_depth_tracked s, True, False)"
    using assms(3) by (simp add: survey_resume_def effect_deps_def Let_def)
  have "is_submitted (survey_resume cfg env a s)"
    "events_named (js ''abandon survey'') (sink (survey_resume cfg env a s)) =
       events_named (js ''abandon survey'') (sink s)"
    by (simp_all add: survey_resume_def Let_def)
  with a d assms(4,5) show ?thesis
    by (simp add: handle_before_unload_def track_event_sends)
qed

theorem abandon_after_submit_witness:
  "is_submitted (page_step cfg0 env0 BeforeUnload
     (page_step cfg0 env0 SurveyTimer (run cfg0 (in_browser answer_events) visit0))) \<and>
   events_named (js ''abandon survey'') (sink (page_step cfg0 env0 BeforeUnload
     (page_step cfg0 env0 SurveyTimer (run cfg0 (in_browser answer_events) visit0)))) = 1"
proof -
  let ?s = "run cfg0 (in_browser answer_events) visit0"
  have h: "survey_wait ?s \<noteq> None" "listeners ?s = Some (effect_deps ?s)"
    "api_key cfg0 \<noteq> []" "calls_succeed env0" "events_named (js ''abandon survey'') (sink ?s) = 0"
    by (simp_all add: visit_simps calls_succeed_def)
  from abandon_after_submit [OF reachable_visit0 h(1-4), of env0] h(5) show ?thesis by simp
qed

text \<open>
  C13: only the gender buttons set the \<open>start survey\<close> latch: in every reachable state
  without a chosen gender, whatever else was answered, \<open>start survey\<close> has not been sent
  and leaving the page sends no \<open>abandon survey\<close>.
\<close>

theorem no_start_without_gender:
  assumes "reachable cfg s" and "gender s = None"
  shows "events_named (js ''start survey'') (sink s) = 0 \<and>
         events_named (js ''abandon survey'') (sink (page_step cfg env BeforeUnload s)) =
           events_named (js ''abandon survey'') (sink s)"
proof -
  from reachable_invs [OF assms(1)] have inv: "survey_inv s" "once_inv s" "listener_inv s"
    by simp_all
  with assms(2) have ns: "\<not> has_started_survey s" by (simp add: survey_inv_def)
  with inv(3) obtain d where "listeners s = Some d" "\<not> fst (snd d)"
    by (auto simp: listener_inv_def deps_le_def effect_deps_def split: option.splits)
  with inv(2) ns show ?thesis
    by (simp add: once_inv_def handle_before_unload_def)
qed

theorem no_start_without_gender_witness:
  "age_group (run cfg0 (in_browser [ClickAgeGroup 0, ClickInterest 1, ClickReaction 0]) visit0) \<noteq> None \<and>
   events_named (js ''start survey'')
     (sink (run cfg0 (in_browser [ClickAgeGroup 0, ClickInterest 1, ClickReaction 0]) visit0)) = 0 \<and>
   events_named (js ''abandon survey'') (sink (page_step cfg0 env0 BeforeUnload
     (run cfg0 (in_browser [ClickAgeGroup 0, ClickInterest 1, ClickReaction 0]) visit0))) = 0"
proof -
  let ?s = "run cfg0 (in_browser [ClickAgeGroup 0, ClickInterest 1, ClickReaction 0]) visit0"
  have h: "gender ?s = None" "age_group ?s \<noteq> None" "events_named (js ''abandon survey'') (sink ?s) = 0"
    by (simp_all add: visit_simps)
  from no_start_without_gender [OF reachable_visit0 h(1), of env0] h(2,3) show ?thesis by simp
qed

section \<open>Tracking across the page\<close>

text \<open>
  C14: without an API key the page never touches browser storage and never calls the
  sink, whatever happens during the visit.
\<close>

theorem no_key_no_effect:
  assumes "api_key cfg = []"
  shows "storage (run cfg evs s) = storage s \<and> sink (run cfg evs s) = sink s"
proof (induction evs arbitrary: s)
  case Nil
  then show ?case by simp
next
  case (Cons x evs)
  obtain e ev where "x = (e, ev)" by (cases x)
  with Cons.IH [of "page_step cfg e ev s"] page_step_no_key [OF assms, of e ev s] show ?case
    by simp
qed

theorem no_key_no_effect_witness:
  "api_key None = [] \<and>
   storage (run None (in_browser answer_events) (init_page Map.empty)) = Map.empty \<and>
   sink (run None (in_browser answer_events) (init_page Map.empty)) = []"
proof -
  have k: "api_key None = []" by (simp add: api_key_def js_trim_def)
  from no_key_no_effect [OF k] k show ?thesis by (simp add: init_page_def)
qed

text \<open>
  C15: a submitted survey is final for the page load: no event un-submits it, changes an
  answer or sends \<open>submit survey\<close> again.
\<close>

theorem submitted_is_final:
  assumes "reachable cfg s" and "is_submitted s"
  shows "is_submitted (page_step cfg env ev s) \<and>
         gender (page_step cfg env ev s) = gender s \<and> age_group (page_step cfg env ev s) = age_group s \<and>
         interest (page_step cfg env ev s) = interest s \<and> reaction (page_step cfg env ev s) = reaction s \<and>
         events_named (js ''submit survey'') (sink (page_step cfg env ev s)) =
           events_named (js ''submit survey'') (sink s)"
proof -
  from reachable_page_inv [OF assms(1)] assms(2) have "survey_wait s = None"
    by (auto simp: page_inv_def survey_inv_def)
  with assms(2) show ?thesis
    by (cases ev) (auto simp: handler_defs split: option.splits)
qed

theorem submitted_is_final_witness:
  "reachable cfg0 (run cfg0 (in_browser (answer_events @ [SurveyTimer])) visit0) \<and>
   is_submitted (run cfg0 (in_browser (answer_events @ [SurveyTimer])) visit0) \<and>
   is_submitted (page_step cfg0 env0 (ClickGender 1) (run cfg0 (in_browser (answer_events @ [SurveyTimer])) visit0))"
proof -
  have s: "is_submitted (run cfg0 (in_browser (answer_events @ [SurveyTimer])) visit0)"
    by (simp add: visit_simps)
  with submitted_is_final [OF reachable_visit0 s] reachable_visit0 show ?thesis by blast
qed

section \<open>The signup form across the page\<close>

text \<open>
  C17: submitting a blank contact (whitespace only, so empty after trimming) on the
  enabled form shows the missing-contact alert and sends nothing; the form does not become
  busy and no timer starts.
\<close>

theorem signup_empty_rejected:
  assumes "signup_enabled s" and "\<forall>c \<in> set (email_or_id s). js_ws c"
  shows "events_named (js ''submit interest'') (sink (page_step cfg env SubmitInterest s)) =
           events_named (js ''submit interest'') (sink s) \<and>
         alerts (page_step cfg env SubmitInterest s) = alerts s @ [AlertContactEmpty] \<and>
         \<not> is_interest_submitting (page_step cfg env SubmitInterest s) \<and>
         interest_wait (page_step cfg env SubmitInterest s) = interest_wait s"
  using assms by (simp add: on_submit_empty js_trim_Nil_iff signup_enabled_def)

theorem signup_empty_rejected_witness:
  "signup_enabled (run cfg0 (in_browser [InputChange (js ''  '')]) visit0) \<and>
   email_or_id (run cfg0 (in_browser [InputChange (js ''  '')]) visit0) = js ''  '' \<and>
   alerts (page_step cfg0 env0 SubmitInterest (run cfg0 (in_browser [InputChange (js ''  '')]) visit0)) =
     [AlertContactEmpty]"
proof -
  have e: "signup_enabled (run cfg0 (in_browser [InputChange (js ''  '')]) visit0)"
    by (simp add: visit_simps signup_enabled_def)
  have t: "\<forall>c \<in> set (email_or_id (run cfg0 (in_browser [InputChange (js ''  '')]) visit0)). js_ws c"
    by (simp add: visit_simps)
  have a: "alerts (run cfg0 (in_browser [InputChange (js ''  '')]) visit0) = []"
    by (simp add: visit_simps)
  have v: "email_or_id (run cfg0 (in_browser [InputChange (js ''  '')]) visit0) = js ''  ''"
    by (simp add: visit_simps)
  from signup_empty_rejected [OF e t] e v a show ?thesis by simp
qed

text \<open>
  C18: at most one three-second timer is pending at any time, and one is pending exactly
  while the success message is shown.
\<close>

theorem one_hide_timer:
  assumes "reachable cfg s"
  shows "revert_timers s \<le> 1 \<and> (0 < revert_timers s \<longleftrightarrow> is_interest_submitted s)"
  using reachable_page_inv [OF assms] by (simp add: page_inv_def signup_inv_def)

theorem one_hide_timer_witness:
  "reachable cfg0 (run cfg0 (in_browser signup_events) visit0) \<and>
   revert_timers (run cfg0 (in_browser signup_events) visit0) = 1 \<and>
   is_interest_submitted (run cfg0 (in_browser signup_events) visit0)"
proof -
  have "is_interest_submitted (run cfg0 (in_browser signup_events) visit0)"
    by (simp add: visit_simps signup_events_def)
  with one_hide_timer [OF reachable_visit0, of signup_events] reachable_visit0 show ?thesis by simp
qed

text \<open>
  C19: when the success message is shown, its timer hides it and brings back the form,
  enabled and with an empty input.
\<close>

theorem signup_reverts:
  assumes "reachable cfg s" and "is_interest_submitted s"
  shows "signup_enabled (page_step cfg env RevertTimer s) \<and>
         email_or_id (page_step cfg env RevertTimer s) = [] \<and>
         revert_timers (page_step cfg env RevertTimer s) = 0"
  using reachable_page_inv [OF assms(1)] assms(2)
  by (simp add: page_inv_def signup_inv_def signup_enabled_def interest_revert_def)

theorem signup_reverts_witness:
  "reachable cfg0 (run cfg0 (in_browser signup_events) visit0) \<and>
   is_interest_submitted (run cfg0 (in_browser signup_events) visit0) \<and>
   signup_enabled (page_step cfg0 env0 RevertTimer (run cfg0 (in_browser signup_events) visit0))"
proof -
  have s: "is_interest_submitted (run cfg0 (in_browser signup_events) visit0)"
    by (simp add: visit_simps signup_events_def)
  from signup_reverts [OF reachable_visit0 s] reachable_visit0 s show ?thesis by blast
qed
section \<open>The progress reported on leaving\<close>

text \<open>
  C27: the progress the page reports on leaving is always one of 0, 20, 40, 60 and 80:
  it never reaches 100, even for a submitted survey.
\<close>

theorem progress_values:
  assumes "reachable cfg s"
  shows "survey_progress s \<in> {0, 20, 40, 60, 80}"
  using reachable_page_inv [OF assms] by (simp add: page_inv_def survey_inv_def)

theorem progress_values_witness:
  "reachable cfg0 (run cfg0 (in_browser (answer_events @ [SurveyTimer])) visit0) \<and>
   survey_progress (run cfg0 (in_browser (answer_events @ [SurveyTimer])) visit0) = 80"
proof -
  have "survey_progress (run cfg0 (in_browser (answer_events @ [SurveyTimer])) visit0) = 80"
    by (simp add: visit_simps)
  with progress_values [OF reachable_visit0] reachable_visit0 show ?thesis by simp
qed

text \<open>
  C28: the progress is the position of the question clicked last, not the number of
  questions answered: whatever was answered before, an enabled click on a button of a
  question sets it to that question's fifth (20 for gender up to 80 for reaction).
\<close>

theorem progress_last_clicked:
  assumes "options_enabled s" and "i < length (question_items q)"
  shows "survey_progress (page_step cfg env (question_click q i) s) =
           (case q of QGenderQ \<Rightarrow> 20 | QAgeGroupQ \<Rightarrow> 40 | QInterestQ \<Rightarrow> 60 | QReactionQ \<Rightarrow> 80)"
  using assms
  by (cases q) (simp_all add: click_option_def select_gender_def select_age_group_def
      select_interest_def select_reaction_def Let_def js_round_percent_def)

theorem progress_last_clicked_witness:
  "reaction (run cfg0 (in_browser [ClickReaction 0, ClickInterest 0]) visit0) \<noteq> None \<and>
   survey_progress (page_step cfg0 env0 (ClickGender 0)
     (run cfg0 (in_browser [ClickReaction 0, ClickInterest 0]) visit0)) = 20"
proof -
  let ?s = "run cfg0 (in_browser [ClickReaction 0, ClickInterest 0]) visit0"
  have h: "options_enabled ?s" "0 < length (question_items QGenderQ)" "reaction ?s \<noteq> None"
    by (simp_all add: visit_simps)
  from progress_last_clicked [OF h(1,2), of cfg0 env0] h(3) show ?thesis by simp
qed

section \<open>The rendered page\<close>

text \<open>
  C29: while the survey form is shown, each question highlights exactly one button once
  answered and none before, and the highlighted button carries the label of the stored
  answer.
\<close>

theorem highlight_is_answer:
  assumes "reachable cfg s" and "\<not> is_submitted s"
  shows "map btn_label (filter btn_selected (question_buttons q (render_survey s))) =
           (case question_answer q s of None \<Rightarrow> [] | Some k \<Rightarrow> [the (map_of (question_items q) k)])"
proof -
  have ok: "answer_ok (question_items q) (question_answer q s)"
    using reachable_page_inv [OF assms(1)] by (simp add: page_inv_def answer_ok_question)
  show ?thesis
    using ok assms(2) option_buttons_selected [OF question_items_distinct, of q "question_answer q s"]
    by (auto simp: question_buttons_render answer_ok_def split: option.splits
             dest: weak_map_of_SomeI)
qed

theorem highlight_is_answer_witness:
  "reachable cfg0 (run cfg0 (in_browser [ClickGender 1]) visit0) \<and>
   \<not> is_submitted (run cfg0 (in_browser [ClickGender 1]) visit0) \<and>
   map btn_label (filter btn_selected
     (question_buttons QGenderQ (render_survey (run cfg0 (in_browser [ClickGender 1]) visit0)))) =
     [[0xC5EC, 0xC131]]"
proof -
  have n: "\<not> is_submitted (run cfg0 (in_browser [ClickGender 1]) visit0)"
    by (simp add: visit_simps)
  have g: "question_answer QGenderQ (run cfg0 (in_browser [ClickGender 1]) visit0) = Some (js ''female'')"
    by (simp add: visit_simps)
  from highlight_is_answer [OF reachable_visit0 n, of QGenderQ] reachable_visit0 n g show ?thesis
    by (simp add: item_tables js_def)
qed

text \<open>
  C30: the submit button shows its spinner exactly while the survey's timer is pending,
  and the signup button exactly while the signup's timer is pending.
\<close>

theorem busy_iff_pending:
  assumes "reachable cfg s"
  shows "(survey_busy (render_survey s) \<longleftrightarrow> survey_wait s \<noteq> None) \<and>
         (signup_busy (render_signup s) \<longleftrightarrow> interest_wait s)"
  using reachable_page_inv [OF assms]
  by (auto simp: page_inv_def survey_inv_def signup_inv_def render_survey_def render_signup_def)

theorem busy_iff_pending_witness:
  "reachable cfg0 (run cfg0 (in_browser answer_events) visit0) \<and>
   survey_busy (render_survey (run cfg0 (in_browser answer_events) visit0)) \<and>
   \<not> signup_busy (render_signup (run cfg0 (in_browser answer_events) visit0))"
proof -
  have w: "survey_wait (run cfg0 (in_browser answer_events) visit0) \<noteq> None"
    and i: "\<not> interest_wait (run cfg0 (in_browser answer_events) visit0)"
    by (simp_all add: visit_simps)
  from busy_iff_pending [OF reachable_visit0, of answer_events] reachable_visit0 w i show ?thesis
    by simp
qed
section \<open>Refinement of the designed state machines\<close>

text \<open>
  C31: the survey refines its design: every reachable page maps onto a state the abstract
  survey machine reaches from four unset answers, by selections of valid keys, a submission
  of complete answers and its completion.
\<close>

theorem survey_refines_spec:
  assumes "reachable cfg s"
  shows "survey_spec\<^sup>*\<^sup>* (SAnswering (None, None, None, None)) (survey_abs s)"
  using assms
proof (induction rule: reachable.induct)
  case (mount env st)
  then show ?case by (simp add: survey_abs_def page_slots_def init_page_def)
next
  case (step s env ev)
  from reachable_page_inv [OF step.hyps(1)] have "survey_inv s" by (simp add: page_inv_def)
  from survey_abs_step [OF this, of cfg env ev] step.IH show ?case
    by (auto intro: rtranclp.rtrancl_into_rtrancl)
qed

theorem survey_refines_spec_witness:
  "reachable cfg0 (run cfg0 (in_browser (answer_events @ [SurveyTimer])) visit0) \<and>
   survey_spec\<^sup>*\<^sup>* (SAnswering (None, None, None, None))
     (SSubmitted (js ''male'', js ''25-29'', js ''yes'', js ''nervous''))"
proof -
  have a: "survey_abs (run cfg0 (in_browser (answer_events @ [SurveyTimer])) visit0) =
             SSubmitted (js ''male'', js ''25-29'', js ''yes'', js ''nervous'')"
    by (simp add: visit_simps survey_abs_def page_slots_def)
  from survey_refines_spec [OF reachable_visit0] reachable_visit0 a show ?thesis by metis
qed

text \<open>
  C32: the signup form refines its design: every reachable page maps onto a state the
  abstract signup machine reaches from an empty input, by edits, sending a non-blank
  value, showing the success message and returning to an empty input.
\<close>

theorem signup_refines_spec:
  assumes "reachable cfg s"
  shows "signup_spec\<^sup>*\<^sup>* (SEditing []) (signup_abs s)"
  using assms
proof (induction rule: reachable.induct)
  case (mount env st)
  then show ?case by (simp add: signup_abs_def init_page_def)
next
  case (step s env ev)
  from reachable_page_inv [OF step.hyps(1)] have "signup_inv s" by (simp add: page_inv_def)
  from signup_abs_step [OF this, of cfg env ev] step.IH show ?case
    by (auto intro: rtranclp.rtrancl_into_rtrancl)
qed

theorem signup_refines_spec_witness:
  "reachable cfg0 (run cfg0 (in_browser signup_events) visit0) \<and>
   signup_spec\<^sup>*\<^sup>* (SEditing []) SShown"
proof -
  have a: "signup_abs (run cfg0 (in_browser signup_events) visit0) = SShown"
    by (simp add: visit_simps signup_events_def signup_abs_def)
  from signup_refines_spec [OF reachable_visit0] reachable_visit0 a show ?thesis by metis
qed
section \<open>Pending timers drain\<close>

text \<open>
  C33: no submission stays in flight: from any reachable page, once the survey's timer,
  the signup's timer and the hide timer have each fired, nothing is pending and neither
  form is busy.
\<close>

theorem timers_drain:
  assumes "reachable cfg s"
  shows "survey_wait (run cfg [(env, SurveyTimer), (env, InterestTimer), (env, RevertTimer)] s) = None \<and>
         \<not> interest_wait (run cfg [(env, SurveyTimer), (env, InterestTimer), (env, RevertTimer)] s) \<and>
         revert_timers (run cfg [(env, SurveyTimer), (env, InterestTimer), (env, RevertTimer)] s) = 0 \<and>
         \<not> is_submitting (run cfg [(env, SurveyTimer), (env, InterestTimer), (env, RevertTimer)] s) \<and>
         \<not> is_interest_submitting (run cfg [(env, SurveyTimer), (env, InterestTimer), (env, RevertTimer)] s)"
proof -
  let ?s1 = "page_step cfg env SurveyTimer s"
  let ?s2 = "page_step cfg env InterestTimer ?s1"
  let ?s3 = "page_step cfg env RevertTimer ?s2"
  have i0: "survey_inv s" "signup_inv s"
    using reachable_page_inv [OF assms] by (simp_all add: page_inv_def)
  have i1: "survey_inv ?s1" "signup_inv ?s1"
    by (rule survey_inv_step [OF i0(1)], rule signup_inv_step [OF i0(2)])
  have i2: "survey_inv ?s2" "signup_inv ?s2"
    by (rule survey_inv_step [OF i1(1)], rule signup_inv_step [OF i1(2)])
  have i3: "survey_inv ?s3" "signup_inv ?s3"
    by (rule survey_inv_step [OF i2(1)], rule signup_inv_step [OF i2(2)])
  have w1: "survey_wait ?s1 = None"
    by (simp add: survey_resume_def Let_def split: option.split)
  have w3: "survey_wait ?s3 = None"
    using w1 by (simp add: interest_resume_def interest_revert_def)
  have iw2: "\<not> interest_wait ?s2"
    by (simp add: interest_resume_def)
  have iw3: "\<not> interest_wait ?s3"
    using iw2 by (simp add: interest_revert_def)
  have r3: "revert_timers ?s3 = 0"
    using i2(2) by (auto simp: signup_inv_def interest_revert_def)
  from w3 iw3 r3 i3 show ?thesis
    by (auto simp: survey_inv_def signup_inv_def)
qed

theorem timers_drain_witness:
  "reachable cfg0 (run cfg0 (in_browser (answer_events @ [InputChange (js ''a@b.com''), SubmitInterest])) visit0) \<and>
   is_submitting (run cfg0 (in_browser (answer_events @ [InputChange (js ''a@b.com''), SubmitInterest])) visit0) \<and>
   is_interest_submitting (run cfg0 (in_browser (answer_events @ [InputChange (js ''a@b.com''), SubmitInterest])) visit0) \<and>
   \<not> is_submitting (run cfg0 [(env0, SurveyTimer), (env0, InterestTimer), (env0, RevertTimer)]
       (run cfg0 (in_browser (answer_events @ [InputChange (js ''a@b.com''), SubmitInterest])) visit0))"
proof -
  have b: "is_submitting (run cfg0 (in_browser (answer_events @ [InputChange (js ''a@b.com''), SubmitInterest])) visit0) \<and>
           is_interest_submitting (run cfg0 (in_browser (answer_events @ [InputChange (js ''a@b.com''), SubmitInterest])) visit0)"
    by (simp add: visit_simps)
  from timers_drain [OF reachable_visit0 [of "answer_events @ [InputChange (js ''a@b.com''), SubmitInterest]"], of env0]
       reachable_visit0 b show ?thesis by blast
qed
end
